theory Spec2Isabelle
  imports Main "HOL-Library.AList"
begin

section \<open>JavaScript values\<close>

text \<open>
  The values that travel through the server: tool arguments, request data and the
  JSON that the upstream service answers with. An object is the list of its own
  properties in the order \<^verbatim>\<open>Object.entries\<close> enumerates them. Numbers are integers: the
  tools exchange ids, limits, priorities and positions, each read only for its
  truthiness and its decimal rendering.
\<close>

datatype jsval =
    JUndefined
  | JNull
  | JBool bool
  | JNum int
  | JStr string
  | JArr "jsval list"
  | JObj "(string \<times> jsval) list"

type_synonym jsobj = "(string \<times> jsval) list"

text \<open>A thrown value: an \<^verbatim>\<open>Error\<close> instance with its message, or anything else.\<close>

datatype exn = JsError string | NonError

text \<open>\<^verbatim>\<open>error instanceof Error ? error.message : 'Unknown error occurred'\<close>\<close>

fun errorMessage :: "exn \<Rightarrow> string" where
  "errorMessage (JsError m) = m"
| "errorMessage NonError = ''Unknown error occurred''"

text \<open>Truthiness, as tested by \<^verbatim>\<open>if (value)\<close>, \<^verbatim>\<open>!value\<close> and \<^verbatim>\<open>||\<close>.\<close>

fun truthy :: "jsval \<Rightarrow> bool" where
  "truthy JUndefined = False"
| "truthy JNull = False"
| "truthy (JBool b) = b"
| "truthy (JNum n) = (n \<noteq> 0)"
| "truthy (JStr s) = (s \<noteq> [])"
| "truthy (JArr xs) = True"
| "truthy (JObj kvs) = True"

text \<open>Decimal rendering of numbers, as in \<^verbatim>\<open>String(10)\<close> and \<^verbatim>\<open>${response.status}\<close>.\<close>

definition digit_char :: "nat \<Rightarrow> char" where
  "digit_char d = ''0123456789'' ! d"

fun string_of_nat :: "nat \<Rightarrow> string" where
  "string_of_nat n =
     (if n < 10 then [digit_char n] else string_of_nat (n div 10) @ [digit_char (n mod 10)])"

declare string_of_nat.simps [simp del]

definition string_of_int :: "int \<Rightarrow> string" where
  "string_of_int i = (if i < 0 then CHR ''-'' # string_of_nat (nat (- i)) else string_of_nat (nat i))"

fun join :: "string \<Rightarrow> string list \<Rightarrow> string" where
  "join sep [] = []"
| "join sep [x] = x"
| "join sep (x # y # ys) = x @ sep @ join sep (y # ys)"

text \<open>
  \<^verbatim>\<open>String(value)\<close>, which is also what a template literal applies to an interpolated
  value. An array joins its elements with commas, \<^verbatim>\<open>null\<close> and \<^verbatim>\<open>undefined\<close> elements
  rendering as the empty string.
\<close>

fun js_String :: "jsval \<Rightarrow> string" where
  "js_String JUndefined = ''undefined''"
| "js_String JNull = ''null''"
| "js_String (JBool b) = (if b then ''true'' else ''false'')"
| "js_String (JNum n) = string_of_int n"
| "js_String (JStr s) = s"
| "js_String (JArr xs) =
     join '','' (map (\<lambda>x. if x = JUndefined \<or> x = JNull then [] else js_String x) xs)"
| "js_String (JObj kvs) = ''[object Object]''"

text \<open>
  Reading a property. \<^verbatim>\<open>null\<close> and \<^verbatim>\<open>undefined\<close> have no properties and the read throws
  a \<^verbatim>\<open>TypeError\<close>; an object yields its own property or \<^verbatim>\<open>undefined\<close>; the other
  values have none of the properties read here (\<^verbatim>\<open>sync_status\<close>, a UUID, \<^verbatim>\<open>content\<close>,
  \<^verbatim>\<open>description\<close>, \<^verbatim>\<open>due\<close>, \<^verbatim>\<open>date\<close>, and the argument names of the tools).
\<close>

definition lookup :: "jsobj \<Rightarrow> string \<Rightarrow> jsval" where
  "lookup kvs k = (case map_of kvs k of None \<Rightarrow> JUndefined | Some v \<Rightarrow> v)"

fun get_prop :: "jsval \<Rightarrow> string \<Rightarrow> exn + jsval" where
  "get_prop JUndefined k =
     Inl (JsError (''Cannot read properties of undefined (reading '' @ [CHR 0x27] @ k @ [CHR 0x27] @ '')''))"
| "get_prop JNull k =
     Inl (JsError (''Cannot read properties of null (reading '' @ [CHR 0x27] @ k @ [CHR 0x27] @ '')''))"
| "get_prop (JObj kvs) k = Inr (lookup kvs k)"
| "get_prop v k = Inr JUndefined"

text \<open>\<^verbatim>\<open>obj.k = v\<close>: an existing property keeps its place, a new one goes last.\<close>

definition assign :: "jsobj \<Rightarrow> string \<Rightarrow> jsval \<Rightarrow> jsobj" where
  "assign obj k v = AList.update k v obj"

text \<open>The statement \<^verbatim>\<open>if (c) obj.k = v\<close>.\<close>

definition assign_if :: "bool \<Rightarrow> string \<Rightarrow> jsval \<Rightarrow> jsobj \<Rightarrow> jsobj" where
  "assign_if c k v obj = (if c then assign obj k v else obj)"

section \<open>Query strings\<close>

text \<open>
  \<^verbatim>\<open>URLSearchParams.toString()\<close>: the \<^verbatim>\<open>application/x-www-form-urlencoded\<close> serializer.
  Strings are byte sequences (UTF-8); a byte is kept when it is an ASCII letter, a digit
  or one of \<^verbatim>\<open>*-._\<close>, a space becomes \<^verbatim>\<open>+\<close>, any other byte becomes \<^verbatim>\<open>%XX\<close>.
\<close>

definition hex_char :: "nat \<Rightarrow> char" where
  "hex_char d = ''0123456789ABCDEF'' ! d"

definition form_unreserved :: "char \<Rightarrow> bool" where
  "form_unreserved c =
     (c \<in> set ''ABCDEFGHIJKLMNOPQRSTUVWXYZabcdefghijklmnopqrstuvwxyz0123456789*-._'')"

definition form_encode_byte :: "char \<Rightarrow> string" where
  "form_encode_byte c =
     (if form_unreserved c then [c]
      else if c = CHR '' '' then ''+''
      else [CHR ''%'', hex_char (of_char c div 16), hex_char (of_char c mod 16)])"

definition form_encode :: "string \<Rightarrow> string" where
  "form_encode s = concat (map form_encode_byte s)"

definition form_serialize :: "(string \<times> string) list \<Rightarrow> string" where
  "form_serialize entries =
     join ''&'' (map (\<lambda>(k, v). form_encode k @ ''='' @ form_encode v) entries)"

section \<open>The upstream API client\<close>

record request =
  req_method :: string
  req_url :: string
  req_headers :: "(string \<times> string) list"
  req_body :: "jsval option"  \<comment> \<open>the value handed to \<^verbatim>\<open>JSON.stringify\<close>\<close>

record response =
  status :: nat
  body_text :: string  \<comment> \<open>what \<^verbatim>\<open>response.text()\<close> resolves to\<close>
  body_json :: "exn + jsval"  \<comment> \<open>what \<^verbatim>\<open>response.json()\<close> resolves to or rejects with\<close>

text \<open>\<^verbatim>\<open>response.ok\<close>: the status is in the range 200 to 299.\<close>

definition response_ok :: "response \<Rightarrow> bool" where
  "response_ok r = (200 \<le> status r \<and> status r \<le> 299)"

text \<open>
  What the code takes from its platform: \<^verbatim>\<open>fetch\<close> (which resolves to a response or
  rejects), the identifier that \<^verbatim>\<open>crypto.randomUUID()\<close> returns, and \<^verbatim>\<open>JSON.stringify\<close>,
  with the two-space indentation and without.
\<close>

record runtime =
  fetch :: "request \<Rightarrow> exn + response"
  randomUUID :: string
  stringify_pretty :: "jsval \<Rightarrow> string"
  stringify :: "jsval \<Rightarrow> string"

text \<open>The operations of the client, as a record of which one was called with what.\<close>

datatype client_call =
    Get string jsobj
  | Post string jsobj
  | Delete string
  | MoveTask jsval jsobj

text \<open>
  A computation returns a value or throws, and leaves the list of the client
  operations it performed.
\<close>

type_synonym 'a io = "(exn + 'a) \<times> client_call list"

definition return_io :: "'a \<Rightarrow> 'a io" where
  "return_io v = (Inr v, [])"

definition throw_io :: "exn \<Rightarrow> 'a io" where
  "throw_io e = (Inl e, [])"

definition bind_io :: "'a io \<Rightarrow> ('a \<Rightarrow> 'b io) \<Rightarrow> 'b io" where
  "bind_io m f =
     (case m of
        (Inl e, tr) \<Rightarrow> (Inl e, tr)
      | (Inr v, tr) \<Rightarrow> (case f v of (r, tr') \<Rightarrow> (r, tr @ tr')))"

definition API_BASE_URL :: string where
  "API_BASE_URL = ''https://api.todoist.com/rest/v2''"

definition SYNC_API_URL :: string where
  "SYNC_API_URL = ''https://api.todoist.com/sync/v9/sync''"

definition getHeaders :: "string \<Rightarrow> bool \<Rightarrow> (string \<times> string) list" where
  "getHeaders apiToken includeContentType =
     (let headers = [(''Authorization'', ''Bearer '' @ apiToken), (''Accept'', ''application/json'')]
      in if includeContentType then headers @ [(''Content-Type'', ''application/json'')]
         else headers)"

definition handleResponse :: "response \<Rightarrow> exn + jsval" where
  "handleResponse r =
     (if \<not> response_ok r then
        Inl (JsError (''Todoist API error ('' @ string_of_nat (status r) @ ''): '' @ body_text r))
      else if status r = 204 then Inr JNull
      else body_json r)"

text \<open>The entries that \<^verbatim>\<open>get\<close> appends to its \<^verbatim>\<open>URLSearchParams\<close>.\<close>

definition queryParams :: "jsobj \<Rightarrow> (string \<times> string) list" where
  "queryParams params = map (\<lambda>(key, v). (key, js_String v)) (filter (\<lambda>(key, v). truthy v) params)"

definition get_url :: "string \<Rightarrow> jsobj \<Rightarrow> string" where
  "get_url endpoint params =
     (let url = API_BASE_URL @ endpoint;
          queryString = form_serialize (queryParams params)
      in if queryString \<noteq> [] then url @ ''?'' @ queryString else url)"

definition fetch_then :: "runtime \<Rightarrow> request \<Rightarrow> (response \<Rightarrow> exn + jsval) \<Rightarrow> exn + jsval" where
  "fetch_then rt req k = (case fetch rt req of Inl e \<Rightarrow> Inl e | Inr r \<Rightarrow> k r)"

definition get_request :: "string \<Rightarrow> string \<Rightarrow> jsobj \<Rightarrow> request" where
  "get_request apiToken endpoint params =
     \<lparr>req_method = ''GET'', req_url = get_url endpoint params,
      req_headers = getHeaders apiToken False, req_body = None\<rparr>"

definition client_get :: "runtime \<Rightarrow> string \<Rightarrow> string \<Rightarrow> jsobj \<Rightarrow> jsval io" where
  "client_get rt apiToken endpoint params =
     (fetch_then rt (get_request apiToken endpoint params) handleResponse,
      [Get endpoint params])"

definition post_request :: "string \<Rightarrow> string \<Rightarrow> jsobj \<Rightarrow> request" where
  "post_request apiToken endpoint data =
     \<lparr>req_method = ''POST'', req_url = API_BASE_URL @ endpoint,
      req_headers = getHeaders apiToken True, req_body = Some (JObj data)\<rparr>"

definition client_post :: "runtime \<Rightarrow> string \<Rightarrow> string \<Rightarrow> jsobj \<Rightarrow> jsval io" where
  "client_post rt apiToken endpoint data =
     (fetch_then rt (post_request apiToken endpoint data) handleResponse,
      [Post endpoint data])"

definition delete_request :: "string \<Rightarrow> string \<Rightarrow> request" where
  "delete_request apiToken endpoint =
     \<lparr>req_method = ''DELETE'', req_url = API_BASE_URL @ endpoint,
      req_headers = getHeaders apiToken False, req_body = None\<rparr>"

definition client_delete :: "runtime \<Rightarrow> string \<Rightarrow> string \<Rightarrow> jsval io" where
  "client_delete rt apiToken endpoint =
     (fetch_then rt (delete_request apiToken endpoint) handleResponse,
      [Delete endpoint])"

text \<open>
  The arguments of the move command: the task id, then each destination field that is
  truthy.
\<close>

definition move_args :: "jsval \<Rightarrow> jsobj \<Rightarrow> jsobj" where
  "move_args taskId destination =
     (let args = [(''id'', taskId)];
          args = assign_if (truthy (lookup destination ''project_id'')) ''project_id''
                   (lookup destination ''project_id'') args;
          args = assign_if (truthy (lookup destination ''section_id'')) ''section_id''
                   (lookup destination ''section_id'') args;
          args = assign_if (truthy (lookup destination ''parent_id'')) ''parent_id''
                   (lookup destination ''parent_id'') args
      in args)"

definition move_request :: "string \<Rightarrow> string \<Rightarrow> jsval \<Rightarrow> jsobj \<Rightarrow> request" where
  "move_request apiToken uuid taskId destination =
     (let args = move_args taskId destination;
          commands = JArr [JObj [(''type'', JStr ''item_move''), (''uuid'', JStr uuid),
                                 (''args'', JObj args)]]
      in \<lparr>req_method = ''POST'', req_url = SYNC_API_URL,
          req_headers = getHeaders apiToken True,
          req_body = Some (JObj [(''commands'', commands)])\<rparr>)"

text \<open>
  The check of the command's outcome, after the response was parsed:
  \<^verbatim>\<open>if (result.sync_status && result.sync_status[uuid] !== 'ok') throw ...\<close>.
  \<^verbatim>\<open>JSON.stringify(undefined)\<close> is \<^verbatim>\<open>undefined\<close>, which the template literal renders as
  the text \<^verbatim>\<open>undefined\<close>.
\<close>

definition template_stringify :: "runtime \<Rightarrow> jsval \<Rightarrow> string" where
  "template_stringify rt v = (if v = JUndefined then ''undefined'' else stringify rt v)"

definition check_sync_status :: "runtime \<Rightarrow> string \<Rightarrow> jsval \<Rightarrow> exn + jsval" where
  "check_sync_status rt uuid result =
     (case get_prop result ''sync_status'' of
        Inl e \<Rightarrow> Inl e
      | Inr sync_status \<Rightarrow>
          if truthy sync_status then
            (case get_prop sync_status uuid of
               Inl e \<Rightarrow> Inl e
             | Inr entry \<Rightarrow>
                 if entry \<noteq> JStr ''ok'' then
                   Inl (JsError (''Move task failed: '' @ template_stringify rt entry))
                 else Inr result)
          else Inr result)"

definition move_response :: "runtime \<Rightarrow> string \<Rightarrow> response \<Rightarrow> exn + jsval" where
  "move_response rt uuid response =
     (if \<not> response_ok response then
        Inl (JsError (''Todoist Sync API error ('' @ string_of_nat (status response)
                      @ ''): '' @ body_text response))
      else
        (case body_json response of
           Inl e \<Rightarrow> Inl e
         | Inr result \<Rightarrow> check_sync_status rt uuid result))"

definition client_moveTask :: "runtime \<Rightarrow> string \<Rightarrow> jsval \<Rightarrow> jsobj \<Rightarrow> jsval io" where
  "client_moveTask rt apiToken taskId destination =
     (let uuid = randomUUID rt
      in (fetch_then rt (move_request apiToken uuid taskId destination) (move_response rt uuid),
          [MoveTask taskId destination]))"

section \<open>The tool handlers\<close>

text \<open>The context of the authorized session, \<^verbatim>\<open>this.props\<close>.\<close>

record props =
  full_name :: string
  email :: string
  accessToken :: string

text \<open>
  What a handler returns: the text of its single content block and the error flag
  (absent in the source when the call succeeded).
\<close>

record tool_result =
  content_text :: string
  isError :: bool

definition text_result :: "string \<Rightarrow> tool_result" where
  "text_result t = \<lparr>content_text = t, isError = False\<rparr>"

definition error_result :: "string \<Rightarrow> tool_result" where
  "error_result t = \<lparr>content_text = t, isError = True\<rparr>"

text \<open>
  The two endings that the handlers share: the awaited value pretty-printed as JSON,
  or a fixed confirmation.
\<close>

definition json_reply :: "runtime \<Rightarrow> jsval io \<Rightarrow> tool_result io" where
  "json_reply rt m = bind_io m (\<lambda>v. return_io (text_result (stringify_pretty rt v)))"

definition fixed_reply :: "jsval io \<Rightarrow> string \<Rightarrow> tool_result io" where
  "fixed_reply m t = bind_io m (\<lambda>v. return_io (text_result t))"

text \<open>
  \<^verbatim>\<open>try { ... } catch (error) { return { ..., text: `Error <action>: ${errorMessage}`, isError: true } }\<close>
\<close>

definition try_catch :: "tool_result io \<Rightarrow> string \<Rightarrow> tool_result io" where
  "try_catch m action =
     (case m of
        (Inl error, tr) \<Rightarrow>
          (Inr (error_result (''Error '' @ action @ '': '' @ errorMessage error)), tr)
      | (Inr r, tr) \<Rightarrow> (Inr r, tr))"

type_synonym try_block = "runtime \<Rightarrow> props \<Rightarrow> jsobj \<Rightarrow> tool_result io"

subsection \<open>Identity and filtered query\<close>

definition me_body :: try_block where
  "me_body rt this_props a =
     return_io (text_result (stringify rt
       (JObj [(''email'', JStr (email this_props)), (''full_name'', JStr (full_name this_props))])))"

text \<open>The projection of one task: \<^verbatim>\<open>task.due?.date || null\<close> for the due date.\<close>

definition formatTask :: "jsval \<Rightarrow> exn + jsval" where
  "formatTask task =
     (case get_prop task ''content'' of Inl e \<Rightarrow> Inl e | Inr content \<Rightarrow>
     (case get_prop task ''description'' of Inl e \<Rightarrow> Inl e | Inr description \<Rightarrow>
     (case get_prop task ''due'' of Inl e \<Rightarrow> Inl e | Inr due \<Rightarrow>
     (case (if due = JUndefined \<or> due = JNull then Inr JUndefined else get_prop due ''date'') of
        Inl e \<Rightarrow> Inl e
      | Inr date \<Rightarrow>
          Inr (JObj [(''content'', content), (''description'', description),
                     (''due_date'', if truthy date then date else JNull)])))))"

fun map_throw :: "('a \<Rightarrow> exn + 'b) \<Rightarrow> 'a list \<Rightarrow> exn + 'b list" where
  "map_throw f [] = Inr []"
| "map_throw f (x # xs) =
     (case f x of
        Inl e \<Rightarrow> Inl e
      | Inr y \<Rightarrow> (case map_throw f xs of Inl e \<Rightarrow> Inl e | Inr ys \<Rightarrow> Inr (y # ys)))"

text \<open>\<^verbatim>\<open>tasks.map(f)\<close> on whatever the client returned.\<close>

fun tasks_map :: "(jsval \<Rightarrow> exn + jsval) \<Rightarrow> jsval \<Rightarrow> exn + jsval list" where
  "tasks_map f (JArr xs) = map_throw f xs"
| "tasks_map f JUndefined = (case get_prop JUndefined ''map'' of Inl e \<Rightarrow> Inl e | Inr v \<Rightarrow> Inr [])"
| "tasks_map f JNull = (case get_prop JNull ''map'' of Inl e \<Rightarrow> Inl e | Inr v \<Rightarrow> Inr [])"
| "tasks_map f v = Inl (JsError ''tasks.map is not a function'')"

definition get_tasks_by_filter_try :: try_block where
  "get_tasks_by_filter_try rt this_props a =
     (let filter = lookup a ''filter''
      in bind_io (client_get rt (accessToken this_props) ''/tasks'' [(''filter'', filter)])
           (\<lambda>tasks.
              case tasks_map formatTask tasks of
                Inl e \<Rightarrow> throw_io e
              | Inr formattedTasks \<Rightarrow>
                  return_io (text_result (stringify_pretty rt (JArr formattedTasks)))))"

subsection \<open>Projects\<close>

definition create_project_try :: try_block where
  "create_project_try rt this_props a =
     json_reply rt (client_post rt (accessToken this_props) ''/projects''
       [(''name'', lookup a ''name''),
        (''description'', lookup a ''description''),
        (''parent_id'', lookup a ''parent_id''),
        (''color'', lookup a ''color''),
        (''is_favorite'', lookup a ''is_favorite''),
        (''view_style'', lookup a ''view_style'')])"

definition get_projects_try :: try_block where
  "get_projects_try rt this_props a =
     (let cursor = lookup a ''cursor''; limit = lookup a ''limit'';
          params = [];
          params = assign_if (truthy cursor) ''cursor'' cursor params;
          params = assign_if (truthy limit) ''limit'' limit params
      in json_reply rt (client_get rt (accessToken this_props) ''/projects'' params))"

definition get_project_try :: try_block where
  "get_project_try rt this_props a =
     json_reply rt (client_get rt (accessToken this_props)
       (''/projects/'' @ js_String (lookup a ''project_id'')) [])"

definition update_project_try :: try_block where
  "update_project_try rt this_props a =
     (let project_id = lookup a ''project_id''; name = lookup a ''name'';
          description = lookup a ''description''; color = lookup a ''color'';
          is_favorite = lookup a ''is_favorite''; view_style = lookup a ''view_style'';
          updateData = [];
          updateData = assign_if (name \<noteq> JUndefined) ''name'' name updateData;
          updateData = assign_if (description \<noteq> JUndefined) ''description'' description updateData;
          updateData = assign_if (color \<noteq> JUndefined) ''color'' color updateData;
          updateData = assign_if (is_favorite \<noteq> JUndefined) ''is_favorite'' is_favorite updateData;
          updateData = assign_if (view_style \<noteq> JUndefined) ''view_style'' view_style updateData
      in json_reply rt (client_post rt (accessToken this_props)
           (''/projects/'' @ js_String project_id) updateData))"

definition delete_project_try :: try_block where
  "delete_project_try rt this_props a =
     fixed_reply (client_delete rt (accessToken this_props)
       (''/projects/'' @ js_String (lookup a ''project_id''))) ''Project deleted successfully''"

definition archive_project_try :: try_block where
  "archive_project_try rt this_props a =
     fixed_reply (client_post rt (accessToken this_props)
       (''/projects/'' @ js_String (lookup a ''project_id'') @ ''/archive'') [])
       ''Project archived successfully''"

definition unarchive_project_try :: try_block where
  "unarchive_project_try rt this_props a =
     fixed_reply (client_post rt (accessToken this_props)
       (''/projects/'' @ js_String (lookup a ''project_id'') @ ''/unarchive'') [])
       ''Project unarchived successfully''"

definition get_project_collaborators_try :: try_block where
  "get_project_collaborators_try rt this_props a =
     json_reply rt (client_get rt (accessToken this_props)
       (''/projects/'' @ js_String (lookup a ''project_id'') @ ''/collaborators'') [])"

subsection \<open>Sections\<close>

definition create_section_try :: try_block where
  "create_section_try rt this_props a =
     json_reply rt (client_post rt (accessToken this_props) ''/sections''
       [(''name'', lookup a ''name''),
        (''project_id'', lookup a ''project_id''),
        (''order'', lookup a ''order'')])"

definition get_sections_try :: try_block where
  "get_sections_try rt this_props a =
     (let project_id = lookup a ''project_id''; cursor = lookup a ''cursor'';
          limit = lookup a ''limit'';
          params = [];
          params = assign_if (truthy project_id) ''project_id'' project_id params;
          params = assign_if (truthy cursor) ''cursor'' cursor params;
          params = assign_if (truthy limit) ''limit'' limit params
      in json_reply rt (client_get rt (accessToken this_props) ''/sections'' params))"

definition get_section_try :: try_block where
  "get_section_try rt this_props a =
     json_reply rt (client_get rt (accessToken this_props)
       (''/sections/'' @ js_String (lookup a ''section_id'')) [])"

definition update_section_try :: try_block where
  "update_section_try rt this_props a =
     json_reply rt (client_post rt (accessToken this_props)
       (''/sections/'' @ js_String (lookup a ''section_id'')) [(''name'', lookup a ''name'')])"

definition delete_section_try :: try_block where
  "delete_section_try rt this_props a =
     fixed_reply (client_delete rt (accessToken this_props)
       (''/sections/'' @ js_String (lookup a ''section_id''))) ''Section deleted successfully''"

subsection \<open>Tasks\<close>

definition create_task_try :: try_block where
  "create_task_try rt this_props a =
     (let content = lookup a ''content''; description = lookup a ''description'';
          project_id = lookup a ''project_id''; section_id = lookup a ''section_id'';
          parent_id = lookup a ''parent_id''; labels = lookup a ''labels'';
          priority = lookup a ''priority''; due_string = lookup a ''due_string'';
          due_date = lookup a ''due_date''; due_datetime = lookup a ''due_datetime'';
          deadline_date = lookup a ''deadline_date''; assignee_id = lookup a ''assignee_id'';
          taskData = [(''content'', content)];
          taskData = assign_if (truthy description) ''description'' description taskData;
          taskData = assign_if (truthy project_id) ''project_id'' project_id taskData;
          taskData = assign_if (truthy section_id) ''section_id'' section_id taskData;
          taskData = assign_if (truthy parent_id) ''parent_id'' parent_id taskData;
          taskData = assign_if (truthy labels) ''labels'' labels taskData;
          taskData = assign_if (truthy priority) ''priority'' priority taskData;
          taskData = assign_if (truthy due_string) ''due_string'' due_string taskData;
          taskData = assign_if (truthy due_date) ''due_date'' due_date taskData;
          taskData = assign_if (truthy due_datetime) ''due_datetime'' due_datetime taskData;
          taskData = assign_if (truthy deadline_date) ''deadline_date'' deadline_date taskData;
          taskData = assign_if (truthy assignee_id) ''assignee_id'' assignee_id taskData
      in json_reply rt (client_post rt (accessToken this_props) ''/tasks'' taskData))"

definition get_tasks_try :: try_block where
  "get_tasks_try rt this_props a =
     (let project_id = lookup a ''project_id''; section_id = lookup a ''section_id'';
          parent_id = lookup a ''parent_id''; label = lookup a ''label'';
          ids = lookup a ''ids''; cursor = lookup a ''cursor''; limit = lookup a ''limit'';
          params = [];
          params = assign_if (truthy project_id) ''project_id'' project_id params;
          params = assign_if (truthy section_id) ''section_id'' section_id params;
          params = assign_if (truthy parent_id) ''parent_id'' parent_id params;
          params = assign_if (truthy label) ''label'' label params;
          params = assign_if (truthy ids) ''ids'' ids params;
          params = assign_if (truthy cursor) ''cursor'' cursor params;
          params = assign_if (truthy limit) ''limit'' limit params
      in json_reply rt (client_get rt (accessToken this_props) ''/tasks'' params))"

definition get_task_try :: try_block where
  "get_task_try rt this_props a =
     json_reply rt (client_get rt (accessToken this_props)
       (''/tasks/'' @ js_String (lookup a ''task_id'')) [])"

definition update_task_try :: try_block where
  "update_task_try rt this_props a =
     (let task_id = lookup a ''task_id''; content = lookup a ''content'';
          description = lookup a ''description''; labels = lookup a ''labels'';
          priority = lookup a ''priority''; due_string = lookup a ''due_string'';
          due_date = lookup a ''due_date''; due_datetime = lookup a ''due_datetime'';
          deadline_date = lookup a ''deadline_date''; assignee_id = lookup a ''assignee_id'';
          updateData = [];
          updateData = assign_if (content \<noteq> JUndefined) ''content'' content updateData;
          updateData = assign_if (description \<noteq> JUndefined) ''description'' description updateData;
          updateData = assign_if (labels \<noteq> JUndefined) ''labels'' labels updateData;
          updateData = assign_if (priority \<noteq> JUndefined) ''priority'' priority updateData;
          updateData = assign_if (due_string \<noteq> JUndefined) ''due_string'' due_string updateData;
          updateData = assign_if (due_date \<noteq> JUndefined) ''due_date'' due_date updateData;
          updateData = assign_if (due_datetime \<noteq> JUndefined) ''due_datetime'' due_datetime updateData;
          updateData = assign_if (deadline_date \<noteq> JUndefined) ''deadline_date'' deadline_date updateData;
          updateData = assign_if (assignee_id \<noteq> JUndefined) ''assignee_id'' assignee_id updateData
      in json_reply rt (client_post rt (accessToken this_props)
           (''/tasks/'' @ js_String task_id) updateData))"

definition delete_task_try :: try_block where
  "delete_task_try rt this_props a =
     fixed_reply (client_delete rt (accessToken this_props)
       (''/tasks/'' @ js_String (lookup a ''task_id''))) ''Task deleted successfully''"

definition close_task_try :: try_block where
  "close_task_try rt this_props a =
     fixed_reply (client_post rt (accessToken this_props)
       (''/tasks/'' @ js_String (lookup a ''task_id'') @ ''/close'') [])
       ''Task completed successfully''"

definition reopen_task_try :: try_block where
  "reopen_task_try rt this_props a =
     fixed_reply (client_post rt (accessToken this_props)
       (''/tasks/'' @ js_String (lookup a ''task_id'') @ ''/reopen'') [])
       ''Task reopened successfully''"

text \<open>
  Moving a task: the check that a destination was given returns from inside the
  \<^verbatim>\<open>try\<close> block, before the client is used.
\<close>

definition move_task_try :: try_block where
  "move_task_try rt this_props a =
     (let task_id = lookup a ''task_id''; project_id = lookup a ''project_id'';
          section_id = lookup a ''section_id''; parent_id = lookup a ''parent_id''
      in if \<not> truthy project_id \<and> \<not> truthy section_id \<and> \<not> truthy parent_id then
           return_io (error_result
             ''Error: At least one destination must be provided (project_id, section_id, or parent_id)'')
         else
           (let destination = [];
                destination = assign_if (truthy project_id) ''project_id'' project_id destination;
                destination = assign_if (truthy section_id) ''section_id'' section_id destination;
                destination = assign_if (truthy parent_id) ''parent_id'' parent_id destination
            in bind_io (client_moveTask rt (accessToken this_props) task_id destination)
                 (\<lambda>result. return_io (text_result
                    (''Task moved successfully.'' @ [CHR 0x0A] @ stringify_pretty rt result)))))"

definition quick_add_task_try :: try_block where
  "quick_add_task_try rt this_props a =
     (let text = lookup a ''text''; note = lookup a ''note''; reminder = lookup a ''reminder'';
          auto_reminder = lookup a ''auto_reminder'';
          quickData = [(''text'', text)];
          quickData = assign_if (truthy note) ''note'' note quickData;
          quickData = assign_if (truthy reminder) ''reminder'' reminder quickData;
          quickData = assign_if (auto_reminder \<noteq> JUndefined) ''auto_reminder'' auto_reminder quickData
      in json_reply rt (client_post rt (accessToken this_props) ''/tasks/quick'' quickData))"

text \<open>The query of the two completed-task tools, built the same way in both.\<close>

definition completed_params :: "jsobj \<Rightarrow> jsobj" where
  "completed_params a =
     (let since = lookup a ''since''; until = lookup a ''until'';
          project_id = lookup a ''project_id''; section_id = lookup a ''section_id'';
          parent_id = lookup a ''parent_id''; filter_query = lookup a ''filter_query'';
          filter_lang = lookup a ''filter_lang''; workspace_id = lookup a ''workspace_id'';
          limit = lookup a ''limit''; cursor = lookup a ''cursor'';
          params = [(''since'', since), (''until'', until)];
          params = assign_if (truthy project_id) ''project_id'' project_id params;
          params = assign_if (truthy section_id) ''section_id'' section_id params;
          params = assign_if (truthy parent_id) ''parent_id'' parent_id params;
          params = assign_if (truthy filter_query) ''filter_query'' filter_query params;
          params = assign_if (truthy filter_lang) ''filter_lang'' filter_lang params;
          params = assign_if (truthy workspace_id) ''workspace_id'' workspace_id params;
          params = assign_if (truthy limit) ''limit'' limit params;
          params = assign_if (truthy cursor) ''cursor'' cursor params
      in params)"

definition get_completed_tasks_by_completion_date_try :: try_block where
  "get_completed_tasks_by_completion_date_try rt this_props a =
     json_reply rt (client_get rt (accessToken this_props)
       ''/tasks/completed/by_completion_date'' (completed_params a))"

definition get_completed_tasks_by_due_date_try :: try_block where
  "get_completed_tasks_by_due_date_try rt this_props a =
     json_reply rt (client_get rt (accessToken this_props)
       ''/tasks/completed/by_due_date'' (completed_params a))"

subsection \<open>Labels\<close>

definition create_label_try :: try_block where
  "create_label_try rt this_props a =
     (let name = lookup a ''name''; color = lookup a ''color''; order = lookup a ''order'';
          is_favorite = lookup a ''is_favorite'';
          labelData = [(''name'', name)];
          labelData = assign_if (truthy color) ''color'' color labelData;
          labelData = assign_if (order \<noteq> JUndefined) ''order'' order labelData;
          labelData = assign_if (is_favorite \<noteq> JUndefined) ''is_favorite'' is_favorite labelData
      in json_reply rt (client_post rt (accessToken this_props) ''/labels'' labelData))"

definition get_labels_try :: try_block where
  "get_labels_try rt this_props a =
     (let cursor = lookup a ''cursor''; limit = lookup a ''limit'';
          params = [];
          params = assign_if (truthy cursor) ''cursor'' cursor params;
          params = assign_if (truthy limit) ''limit'' limit params
      in json_reply rt (client_get rt (accessToken this_props) ''/labels'' params))"

definition get_label_try :: try_block where
  "get_label_try rt this_props a =
     json_reply rt (client_get rt (accessToken this_props)
       (''/labels/'' @ js_String (lookup a ''label_id'')) [])"

definition update_label_try :: try_block where
  "update_label_try rt this_props a =
     (let label_id = lookup a ''label_id''; name = lookup a ''name''; color = lookup a ''color'';
          order = lookup a ''order''; is_favorite = lookup a ''is_favorite'';
          updateData = [];
          updateData = assign_if (name \<noteq> JUndefined) ''name'' name updateData;
          updateData = assign_if (color \<noteq> JUndefined) ''color'' color updateData;
          updateData = assign_if (order \<noteq> JUndefined) ''order'' order updateData;
          updateData = assign_if (is_favorite \<noteq> JUndefined) ''is_favorite'' is_favorite updateData
      in json_reply rt (client_post rt (accessToken this_props)
           (''/labels/'' @ js_String label_id) updateData))"

definition delete_label_try :: try_block where
  "delete_label_try rt this_props a =
     fixed_reply (client_delete rt (accessToken this_props)
       (''/labels/'' @ js_String (lookup a ''label_id''))) ''Label deleted successfully''"

definition get_shared_labels_try :: try_block where
  "get_shared_labels_try rt this_props a =
     (let omit_personal = lookup a ''omit_personal'';
          params = [];
          params = assign_if (omit_personal \<noteq> JUndefined) ''omit_personal'' omit_personal params
      in json_reply rt (client_get rt (accessToken this_props) ''/labels/shared'' params))"

definition remove_shared_label_try :: try_block where
  "remove_shared_label_try rt this_props a =
     fixed_reply (client_post rt (accessToken this_props) ''/labels/shared/remove''
       [(''name'', lookup a ''name'')]) ''Shared label removed successfully''"

definition rename_shared_label_try :: try_block where
  "rename_shared_label_try rt this_props a =
     fixed_reply (client_post rt (accessToken this_props) ''/labels/shared/rename''
       [(''name'', lookup a ''name''), (''new_name'', lookup a ''new_name'')])
       ''Shared label renamed successfully''"

subsection \<open>Comments\<close>

definition create_comment_try :: try_block where
  "create_comment_try rt this_props a =
     (let content = lookup a ''content''; task_id = lookup a ''task_id'';
          project_id = lookup a ''project_id''; attachment = lookup a ''attachment'';
          commentData = [(''content'', content)];
          commentData = assign_if (truthy task_id) ''task_id'' task_id commentData;
          commentData = assign_if (truthy project_id) ''project_id'' project_id commentData;
          commentData = assign_if (truthy attachment) ''attachment'' attachment commentData
      in json_reply rt (client_post rt (accessToken this_props) ''/comments'' commentData))"

definition get_comments_try :: try_block where
  "get_comments_try rt this_props a =
     (let task_id = lookup a ''task_id''; project_id = lookup a ''project_id'';
          cursor = lookup a ''cursor''; limit = lookup a ''limit'';
          params = [];
          params = assign_if (truthy task_id) ''task_id'' task_id params;
          params = assign_if (truthy project_id) ''project_id'' project_id params;
          params = assign_if (truthy cursor) ''cursor'' cursor params;
          params = assign_if (truthy limit) ''limit'' limit params
      in json_reply rt (client_get rt (accessToken this_props) ''/comments'' params))"

definition get_comment_try :: try_block where
  "get_comment_try rt this_props a =
     json_reply rt (client_get rt (accessToken this_props)
       (''/comments/'' @ js_String (lookup a ''comment_id'')) [])"

definition update_comment_try :: try_block where
  "update_comment_try rt this_props a =
     json_reply rt (client_post rt (accessToken this_props)
       (''/comments/'' @ js_String (lookup a ''comment_id'')) [(''content'', lookup a ''content'')])"

definition delete_comment_try :: try_block where
  "delete_comment_try rt this_props a =
     fixed_reply (client_delete rt (accessToken this_props)
       (''/comments/'' @ js_String (lookup a ''comment_id''))) ''Comment deleted successfully''"

section \<open>Tool registration\<close>

text \<open>
  A tool as it is handed to \<^verbatim>\<open>server.tool\<close>: its name and its callback. Every callback
  but that of \<^verbatim>\<open>me\<close> is a \<^verbatim>\<open>try\<close> block with a \<^verbatim>\<open>catch\<close> clause that answers
  \<^verbatim>\<open>Error <action>: <message>\<close>; the record keeps the block and the action text.
\<close>

record tool =
  tool_name :: string
  catch_action :: "string option"
  tool_try :: try_block

definition handler :: "tool \<Rightarrow> runtime \<Rightarrow> props \<Rightarrow> jsobj \<Rightarrow> tool_result io" where
  "handler t rt this_props a =
     (case catch_action t of
        None \<Rightarrow> tool_try t rt this_props a
      | Some action \<Rightarrow> try_catch (tool_try t rt this_props a) action)"

text \<open>The filtering configuration, as compiled in.\<close>

definition MINIMAL_TOOL_SET :: bool where
  "MINIMAL_TOOL_SET = True"

definition ESSENTIAL_TOOLS :: "string set" where
  "ESSENTIAL_TOOLS =
     {''create_task'', ''get_tasks'', ''update_task'', ''close_task'',
      ''get_projects'', ''get_project'', ''move_task'', ''get_tasks_by_filter'',
      ''create_project'', ''update_project'', ''get_sections'', ''delete_task'', ''reopen_task'',
      ''get_labels'', ''create_section'', ''update_section'',
      ''get_completed_tasks_by_completion_date'', ''get_completed_tasks_by_due_date''}"

text \<open>
  The predicate reads the two static fields; they are parameters here, so that both
  positions of the switch can be spoken about.
\<close>

definition shouldRegisterTool :: "bool \<Rightarrow> string set \<Rightarrow> string \<Rightarrow> bool" where
  "shouldRegisterTool minimal essential toolName = (\<not> minimal \<or> toolName \<in> essential)"

text \<open>
  The statements of \<^verbatim>\<open>init\<close>, in order: a registration either stands alone or sits
  inside \<^verbatim>\<open>if (this.shouldRegisterTool('<name>'))\<close>.
\<close>

datatype registration = Always tool | Guarded string tool

definition registrations :: "registration list" where
  "registrations =
     [
      Guarded ''me''
        \<lparr>tool_name = ''me'', catch_action = None,
         tool_try = me_body\<rparr>,
      Always \<lparr>tool_name = ''get_tasks_by_filter'', catch_action = Some ''fetching tasks'',
         tool_try = get_tasks_by_filter_try\<rparr>,
      Always \<lparr>tool_name = ''create_project'', catch_action = Some ''creating project'',
         tool_try = create_project_try\<rparr>,
      Always \<lparr>tool_name = ''get_projects'', catch_action = Some ''fetching projects'',
         tool_try = get_projects_try\<rparr>,
      Always \<lparr>tool_name = ''get_project'', catch_action = Some ''fetching project'',
         tool_try = get_project_try\<rparr>,
      Always \<lparr>tool_name = ''update_project'', catch_action = Some ''updating project'',
         tool_try = update_project_try\<rparr>,
      Guarded ''delete_project''
        \<lparr>tool_name = ''delete_project'', catch_action = Some ''deleting project'',
         tool_try = delete_project_try\<rparr>,
      Guarded ''archive_project''
        \<lparr>tool_name = ''archive_project'', catch_action = Some ''archiving project'',
         tool_try = archive_project_try\<rparr>,
      Guarded ''unarchive_project''
        \<lparr>tool_name = ''unarchive_project'', catch_action = Some ''unarchiving project'',
         tool_try = unarchive_project_try\<rparr>,
      Guarded ''get_project_collaborators''
        \<lparr>tool_name = ''get_project_collaborators'', catch_action = Some ''fetching collaborators'',
         tool_try = get_project_collaborators_try\<rparr>,
      Guarded ''create_section''
        \<lparr>tool_name = ''create_section'', catch_action = Some ''creating section'',
         tool_try = create_section_try\<rparr>,
      Always \<lparr>tool_name = ''get_sections'', catch_action = Some ''fetching sections'',
         tool_try = get_sections_try\<rparr>,
      Guarded ''get_section''
        \<lparr>tool_name = ''get_section'', catch_action = Some ''fetching section'',
         tool_try = get_section_try\<rparr>,
      Guarded ''update_section''
        \<lparr>tool_name = ''update_section'', catch_action = Some ''updating section'',
         tool_try = update_section_try\<rparr>,
      Guarded ''delete_section''
        \<lparr>tool_name = ''delete_section'', catch_action = Some ''deleting section'',
         tool_try = delete_section_try\<rparr>,
      Always \<lparr>tool_name = ''create_task'', catch_action = Some ''creating task'',
         tool_try = create_task_try\<rparr>,
      Always \<lparr>tool_name = ''get_tasks'', catch_action = Some ''fetching tasks'',
         tool_try = get_tasks_try\<rparr>,
      Guarded ''get_task''
        \<lparr>tool_name = ''get_task'', catch_action = Some ''fetching task'',
         tool_try = get_task_try\<rparr>,
      Always \<lparr>tool_name = ''update_task'', catch_action = Some ''updating task'',
         tool_try = update_task_try\<rparr>,
      Always \<lparr>tool_name = ''delete_task'', catch_action = Some ''deleting task'',
         tool_try = delete_task_try\<rparr>,
      Always \<lparr>tool_name = ''close_task'', catch_action = Some ''completing task'',
         tool_try = close_task_try\<rparr>,
      Always \<lparr>tool_name = ''reopen_task'', catch_action = Some ''reopening task'',
         tool_try = reopen_task_try\<rparr>,
      Always \<lparr>tool_name = ''move_task'', catch_action = Some ''moving task'',
         tool_try = move_task_try\<rparr>,
      Guarded ''quick_add_task''
        \<lparr>tool_name = ''quick_add_task'', catch_action = Some ''creating quick task'',
         tool_try = quick_add_task_try\<rparr>,
      Guarded ''get_completed_tasks_by_completion_date''
        \<lparr>tool_name = ''get_completed_tasks_by_completion_date'', catch_action = Some ''fetching completed tasks'',
         tool_try = get_completed_tasks_by_completion_date_try\<rparr>,
      Guarded ''get_completed_tasks_by_due_date''
        \<lparr>tool_name = ''get_completed_tasks_by_due_date'', catch_action = Some ''fetching completed tasks by due date'',
         tool_try = get_completed_tasks_by_due_date_try\<rparr>,
      Guarded ''create_label''
        \<lparr>tool_name = ''create_label'', catch_action = Some ''creating label'',
         tool_try = create_label_try\<rparr>,
      Guarded ''get_labels''
        \<lparr>tool_name = ''get_labels'', catch_action = Some ''fetching labels'',
         tool_try = get_labels_try\<rparr>,
      Guarded ''get_label''
        \<lparr>tool_name = ''get_label'', catch_action = Some ''fetching label'',
         tool_try = get_label_try\<rparr>,
      Guarded ''update_label''
        \<lparr>tool_name = ''update_label'', catch_action = Some ''updating label'',
         tool_try = update_label_try\<rparr>,
      Guarded ''delete_label''
        \<lparr>tool_name = ''delete_label'', catch_action = Some ''deleting label'',
         tool_try = delete_label_try\<rparr>,
      Guarded ''get_shared_labels''
        \<lparr>tool_name = ''get_shared_labels'', catch_action = Some ''fetching shared labels'',
         tool_try = get_shared_labels_try\<rparr>,
      Guarded ''remove_shared_label''
        \<lparr>tool_name = ''remove_shared_label'', catch_action = Some ''removing shared label'',
         tool_try = remove_shared_label_try\<rparr>,
      Guarded ''rename_shared_label''
        \<lparr>tool_name = ''rename_shared_label'', catch_action = Some ''renaming shared label'',
         tool_try = rename_shared_label_try\<rparr>,
      Guarded ''create_comment''
        \<lparr>tool_name = ''create_comment'', catch_action = Some ''creating comment'',
         tool_try = create_comment_try\<rparr>,
      Guarded ''get_comments''
        \<lparr>tool_name = ''get_comments'', catch_action = Some ''fetching comments'',
         tool_try = get_comments_try\<rparr>,
      Guarded ''get_comment''
        \<lparr>tool_name = ''get_comment'', catch_action = Some ''fetching comment'',
         tool_try = get_comment_try\<rparr>,
      Guarded ''update_comment''
        \<lparr>tool_name = ''update_comment'', catch_action = Some ''updating comment'',
         tool_try = update_comment_try\<rparr>,
      Guarded ''delete_comment''
        \<lparr>tool_name = ''delete_comment'', catch_action = Some ''deleting comment'',
         tool_try = delete_comment_try\<rparr>
     ]"

fun registered_tool :: "registration \<Rightarrow> tool" where
  "registered_tool (Always t) = t"
| "registered_tool (Guarded g t) = t"

text \<open>The full catalogue: every tool that \<^verbatim>\<open>init\<close> can register.\<close>

definition catalogue :: "tool list" where
  "catalogue = map registered_tool registrations"

text \<open>\<^verbatim>\<open>server.tool\<close> adds the tool, and throws when the name is taken already.\<close>

definition server_tool :: "tool \<Rightarrow> tool list \<Rightarrow> exn + tool list" where
  "server_tool t server =
     (if tool_name t \<in> set (map tool_name server) then
        Inl (JsError (''Tool '' @ tool_name t @ '' is already registered''))
      else Inr (server @ [t]))"

fun run_registrations :: "bool \<Rightarrow> string set \<Rightarrow> registration list \<Rightarrow> tool list \<Rightarrow> exn + tool list" where
  "run_registrations minimal essential [] server = Inr server"
| "run_registrations minimal essential (Always t # rs) server =
     (case server_tool t server of
        Inl e \<Rightarrow> Inl e
      | Inr server' \<Rightarrow> run_registrations minimal essential rs server')"
| "run_registrations minimal essential (Guarded g t # rs) server =
     (if shouldRegisterTool minimal essential g then
        (case server_tool t server of
           Inl e \<Rightarrow> Inl e
         | Inr server' \<Rightarrow> run_registrations minimal essential rs server')
      else run_registrations minimal essential rs server)"

definition init :: "bool \<Rightarrow> string set \<Rightarrow> exn + tool list" where
  "init minimal essential = run_registrations minimal essential registrations []"

text \<open>The names that a run of \<^verbatim>\<open>init\<close> registered (none when it threw).\<close>

definition registered_names :: "exn + tool list \<Rightarrow> string list" where
  "registered_names r = (case r of Inl e \<Rightarrow> [] | Inr server \<Rightarrow> map tool_name server)"

section \<open>Auxiliary definitions for the statements\<close>

text \<open>
  A runtime for concrete runs: \<^verbatim>\<open>fetch\<close> gives the same answer to every request. The
  two serializers are stand-ins that print \<^verbatim>\<open><json>\<close> for every value; no statement depends
  on the serialized text.
\<close>

definition example_runtime :: "(exn + response) \<Rightarrow> runtime" where
  "example_runtime answer =
     \<lparr>fetch = (\<lambda>req. answer), randomUUID = ''3b241101-e2bb-4255-8caf-4136c566a962'',
      stringify_pretty = (\<lambda>v. ''<json>''), stringify = (\<lambda>v. ''<json>'')\<rparr>"

definition example_props :: props where
  "example_props = \<lparr>full_name = ''Ada'', email = ''ada@example.org'', accessToken = ''token''\<rparr>"

text \<open>Two answers of the command endpoint: the command refused, and no status map at all.\<close>

definition rejected_move :: response where
  "rejected_move =
     \<lparr>status = 200, body_text = [],
      body_json = Inr (JObj [(''sync_status'',
         JObj [(''3b241101-e2bb-4255-8caf-4136c566a962'',
                JObj [(''error_code'', JNum 22), (''error'', JStr ''Item not found'')])])])\<rparr>"

definition unreported_move :: response where
  "unreported_move = \<lparr>status = 200, body_text = [], body_json = Inr (JObj [(''full_sync'', JBool False)])\<rparr>"

text \<open>The value of a property of a value that is neither null nor undefined.\<close>

definition field :: "jsval \<Rightarrow> string \<Rightarrow> jsval" where
  "field v k = (case v of JObj kvs \<Rightarrow> lookup kvs k | _ \<Rightarrow> JUndefined)"

text \<open>\<^verbatim>\<open>task.due?.date\<close>\<close>

definition due_dot_date :: "jsval \<Rightarrow> jsval" where
  "due_dot_date task = field (field task ''due'') ''date''"

text \<open>The projection that the handler applies: the due date survives when it is truthy.\<close>

definition projection :: "jsval \<Rightarrow> jsval" where
  "projection task =
     JObj [(''content'', field task ''content''), (''description'', field task ''description''),
           (''due_date'', if truthy (due_dot_date task) then due_dot_date task else JNull)]"

text \<open>
  The projection in the words of the specification: \<^verbatim>\<open>due_date\<close> is the task's
  \<^verbatim>\<open>due.date\<close> when present, and null otherwise.
\<close>

definition spec_projection :: "jsval \<Rightarrow> jsval" where
  "spec_projection task =
     JObj [(''content'', field task ''content''), (''description'', field task ''description''),
           (''due_date'', if due_dot_date task \<noteq> JUndefined then due_dot_date task else JNull)]"

definition undated_task :: jsval where
  "undated_task =
     JObj [(''id'', JStr ''7''), (''content'', JStr ''Buy milk''), (''description'', JStr ''''),
           (''due'', JObj [(''date'', JStr ''''), (''string'', JStr ''someday'')])]"

text \<open>An answer outside the success range.\<close>

definition not_found :: response where
  "not_found = \<lparr>status = 404, body_text = ''Task not found'', body_json = Inl (JsError ''Unexpected token'')\<rparr>"

section \<open>Tool filter and registration\<close>

lemma init_minimal:
  "init True ESSENTIAL_TOOLS = Inr (filter (\<lambda>t. tool_name t \<in> ESSENTIAL_TOOLS) catalogue)"
  by (simp add: init_def registrations_def catalogue_def server_tool_def shouldRegisterTool_def
        ESSENTIAL_TOOLS_def)

lemma init_full: "init False essential = Inr catalogue"
  by (simp add: init_def registrations_def catalogue_def server_tool_def shouldRegisterTool_def)

lemma names_minimal:
  "registered_names (init True ESSENTIAL_TOOLS) =
     [''get_tasks_by_filter'', ''create_project'', ''get_projects'', ''get_project'',
      ''update_project'', ''create_section'', ''get_sections'', ''update_section'',
      ''create_task'', ''get_tasks'', ''update_task'', ''delete_task'', ''close_task'',
      ''reopen_task'', ''move_task'', ''get_completed_tasks_by_completion_date'',
      ''get_completed_tasks_by_due_date'', ''get_labels'']"
  by (simp add: registered_names_def init_def registrations_def server_tool_def
        shouldRegisterTool_def ESSENTIAL_TOOLS_def)

text \<open>
  C4. The registration predicate is true exactly when minimal mode is off or the name
  is in the essential set. It is a total, boolean-valued function of the name and the
  two configuration values, so it has no error outcome.
\<close>

theorem shouldRegisterTool_iff:
  "(shouldRegisterTool minimal essential toolName \<longleftrightarrow> (minimal = False \<or> toolName \<in> essential))
   \<and> (shouldRegisterTool MINIMAL_TOOL_SET ESSENTIAL_TOOLS toolName \<longleftrightarrow> toolName \<in> ESSENTIAL_TOOLS)"
  by (simp add: shouldRegisterTool_def MINIMAL_TOOL_SET_def)

theorem shouldRegisterTool_iff_witness:
  "shouldRegisterTool MINIMAL_TOOL_SET ESSENTIAL_TOOLS ''create_task''
   \<and> \<not> shouldRegisterTool MINIMAL_TOOL_SET ESSENTIAL_TOOLS ''get_task''
   \<and> shouldRegisterTool False ESSENTIAL_TOOLS ''get_task''"
  using shouldRegisterTool_iff [of MINIMAL_TOOL_SET ESSENTIAL_TOOLS "''create_task''"]
        shouldRegisterTool_iff [of MINIMAL_TOOL_SET ESSENTIAL_TOOLS "''get_task''"]
        shouldRegisterTool_iff [of False ESSENTIAL_TOOLS "''get_task''"]
  by (simp add: MINIMAL_TOOL_SET_def ESSENTIAL_TOOLS_def)

text \<open>
  C5. In minimal mode \<^verbatim>\<open>init\<close> completes, every name it registers (guarded or not) is in
  the essential set, and every essential name that the catalogue has is registered.
\<close>

theorem minimal_mode_registers_essential:
  "(\<exists>server. init True ESSENTIAL_TOOLS = Inr server)
   \<and> (\<forall>n. n \<in> set (registered_names (init True ESSENTIAL_TOOLS)) \<longrightarrow> n \<in> ESSENTIAL_TOOLS)
   \<and> (\<forall>n. n \<in> ESSENTIAL_TOOLS \<and> n \<in> set (map tool_name catalogue)
        \<longrightarrow> n \<in> set (registered_names (init True ESSENTIAL_TOOLS)))"
proof -
  have "\<exists>server. init True ESSENTIAL_TOOLS = Inr server"
    by (simp add: init_minimal)
  moreover have "set (registered_names (init True ESSENTIAL_TOOLS)) = ESSENTIAL_TOOLS"
    unfolding names_minimal by (auto simp add: ESSENTIAL_TOOLS_def)
  ultimately show ?thesis by blast
qed

theorem minimal_mode_registers_essential_witness:
  "MINIMAL_TOOL_SET = True
   \<and> ''get_tasks_by_filter'' \<in> set (registered_names (init True ESSENTIAL_TOOLS))
   \<and> ''get_tasks_by_filter'' \<in> ESSENTIAL_TOOLS
   \<and> ''get_labels'' \<in> ESSENTIAL_TOOLS \<and> ''get_labels'' \<in> set (map tool_name catalogue)
   \<and> ''get_labels'' \<in> set (registered_names (init True ESSENTIAL_TOOLS))"
proof -
  have a: "''get_tasks_by_filter'' \<in> set (registered_names (init True ESSENTIAL_TOOLS))"
    by (simp add: names_minimal)
  have b: "''get_labels'' \<in> ESSENTIAL_TOOLS"
    by (simp add: ESSENTIAL_TOOLS_def)
  have c: "''get_labels'' \<in> set (map tool_name catalogue)"
    by (simp add: catalogue_def registrations_def)
  from minimal_mode_registers_essential a b c show ?thesis
    by (simp add: MINIMAL_TOOL_SET_def)
qed

section \<open>The move handler and the identity tool\<close>

lemma move_task_entry_all:
  "list_all (\<lambda>t. tool_name t = ''move_task'' \<longrightarrow>
      catch_action t = Some ''moving task'' \<and> tool_try t = move_task_try) catalogue"
  by (simp add: catalogue_def registrations_def)

lemma move_task_entry:
  "t \<in> set catalogue \<Longrightarrow> tool_name t = ''move_task'' \<Longrightarrow>
     catch_action t = Some ''moving task'' \<and> tool_try t = move_task_try"
  using move_task_entry_all by (simp add: list_all_iff)

lemma move_task_in_catalogue:
  "\<lparr>tool_name = ''move_task'', catch_action = Some ''moving task'', tool_try = move_task_try\<rparr>
     \<in> set catalogue"
  by (simp add: catalogue_def registrations_def)

lemma move_task_without_destination:
  "\<not> truthy (lookup a ''project_id'') \<Longrightarrow> \<not> truthy (lookup a ''section_id'') \<Longrightarrow>
   \<not> truthy (lookup a ''parent_id'') \<Longrightarrow>
   move_task_try rt p a = (Inr (error_result
     ''Error: At least one destination must be provided (project_id, section_id, or parent_id)''), [])"
  by (simp add: move_task_try_def return_io_def)

lemma move_task_with_destination:
  "truthy (lookup a ''project_id'') \<or> truthy (lookup a ''section_id'') \<or>
   truthy (lookup a ''parent_id'') \<Longrightarrow>
   \<exists>dest. move_task_try rt p a =
     bind_io (client_moveTask rt (accessToken p) (lookup a ''task_id'') dest)
        (\<lambda>result. return_io (text_result
                    (''Task moved successfully.'' @ [CHR 0x0A] @ stringify_pretty rt result)))"
  by (auto simp add: move_task_try_def Let_def)

text \<open>
  C10. With the compiled-in configuration \<^verbatim>\<open>init\<close> completes without registering \<^verbatim>\<open>me\<close>:
  its registration is the first statement, guarded by the predicate, and the name is not
  essential. The callback of \<^verbatim>\<open>me\<close> answers from the session context and performs no
  client operation.
\<close>

theorem me_not_registered:
  "(\<exists>server. init MINIMAL_TOOL_SET ESSENTIAL_TOOLS = Inr server)
   \<and> ''me'' \<notin> set (registered_names (init MINIMAL_TOOL_SET ESSENTIAL_TOOLS))
   \<and> ''me'' \<notin> ESSENTIAL_TOOLS
   \<and> \<not> shouldRegisterTool MINIMAL_TOOL_SET ESSENTIAL_TOOLS ''me''
   \<and> hd registrations = Guarded ''me'' \<lparr>tool_name = ''me'', catch_action = None, tool_try = me_body\<rparr>
   \<and> snd (me_body rt this_props a) = []"
proof -
  have "''me'' \<notin> ESSENTIAL_TOOLS"
    by (simp add: ESSENTIAL_TOOLS_def)
  moreover have "''me'' \<notin> set (registered_names (init True ESSENTIAL_TOOLS))"
    by (simp add: names_minimal)
  moreover have "hd registrations =
      Guarded ''me'' \<lparr>tool_name = ''me'', catch_action = None, tool_try = me_body\<rparr>"
    by (simp add: registrations_def)
  moreover have "snd (me_body rt this_props a) = []"
    by (simp add: me_body_def return_io_def)
  ultimately show ?thesis
    by (simp add: MINIMAL_TOOL_SET_def init_minimal shouldRegisterTool_def)
qed

theorem me_not_registered_witness:
  "MINIMAL_TOOL_SET \<and> ''me'' \<notin> ESSENTIAL_TOOLS
   \<and> ''me'' \<notin> set (registered_names (init MINIMAL_TOOL_SET ESSENTIAL_TOOLS))
   \<and> ''me'' \<in> set (registered_names (init False ESSENTIAL_TOOLS))"
proof -
  have "''me'' \<in> set (registered_names (init False ESSENTIAL_TOOLS))"
    by (simp add: init_full registered_names_def catalogue_def registrations_def)
  with me_not_registered [of "example_runtime (Inl NonError)" example_props "[]"]
  show ?thesis by (simp add: MINIMAL_TOOL_SET_def)
qed

text \<open>
  C2. When none of \<^verbatim>\<open>project_id\<close>, \<^verbatim>\<open>section_id\<close>, \<^verbatim>\<open>parent_id\<close> is supplied, the
  \<^verbatim>\<open>move_task\<close> handler returns an error result and performs no client operation.
\<close>

theorem move_task_no_destination:
  assumes "t \<in> set catalogue" and "tool_name t = ''move_task''"
    and "lookup a ''project_id'' = JUndefined"
    and "lookup a ''section_id'' = JUndefined"
    and "lookup a ''parent_id'' = JUndefined"
  shows "\<exists>r. handler t rt this_props a = (Inr r, []) \<and> isError r = True
           \<and> content_text r =
               ''Error: At least one destination must be provided (project_id, section_id, or parent_id)''"
  using move_task_entry [OF assms(1,2)] assms(3-5)
  by (simp add: handler_def try_catch_def move_task_without_destination error_result_def)

theorem move_task_no_destination_witness:
  "\<exists>r. handler \<lparr>tool_name = ''move_task'', catch_action = Some ''moving task'', tool_try = move_task_try\<rparr>
          (example_runtime (Inl NonError)) example_props [(''task_id'', JStr ''7'')] = (Inr r, [])
       \<and> isError r = True
       \<and> content_text r =
           ''Error: At least one destination must be provided (project_id, section_id, or parent_id)''"
  using move_task_no_destination [OF move_task_in_catalogue,
      where a = "[(''task_id'', JStr ''7'')]" and rt = "example_runtime (Inl NonError)"
        and this_props = example_props]
  by (simp add: lookup_def)

text \<open>
  C9. When all three destination arguments are supplied as empty strings, the
  \<^verbatim>\<open>move_task\<close> handler treats them as absent: it returns an error result and performs
  no client operation.
\<close>

theorem move_task_empty_destination:
  assumes "t \<in> set catalogue" and "tool_name t = ''move_task''"
    and "lookup a ''project_id'' = JStr ''''"
    and "lookup a ''section_id'' = JStr ''''"
    and "lookup a ''parent_id'' = JStr ''''"
  shows "\<exists>r. handler t rt this_props a = (Inr r, []) \<and> isError r = True
           \<and> content_text r =
               ''Error: At least one destination must be provided (project_id, section_id, or parent_id)''"
  using move_task_entry [OF assms(1,2)] assms(3-5)
  by (simp add: handler_def try_catch_def move_task_without_destination error_result_def)

theorem move_task_empty_destination_witness:
  "\<exists>r. handler \<lparr>tool_name = ''move_task'', catch_action = Some ''moving task'', tool_try = move_task_try\<rparr>
          (example_runtime (Inl NonError)) example_props
          [(''task_id'', JStr ''7''), (''project_id'', JStr ''''), (''section_id'', JStr ''''),
           (''parent_id'', JStr '''')] = (Inr r, [])
       \<and> isError r = True
       \<and> content_text r =
           ''Error: At least one destination must be provided (project_id, section_id, or parent_id)''"
  using move_task_empty_destination [OF move_task_in_catalogue,
      where a = "[(''task_id'', JStr ''7''), (''project_id'', JStr ''''), (''section_id'', JStr ''''),
           (''parent_id'', JStr '''')]" and rt = "example_runtime (Inl NonError)"
        and this_props = example_props]
  by (simp add: lookup_def)

section \<open>The move operation of the client\<close>

lemma truthy_get_prop: "truthy v \<Longrightarrow> \<exists>entry. get_prop v k = Inr entry"
  by (cases v) simp_all

lemma check_sync_status_fails:
  assumes "get_prop result ''sync_status'' = Inr sync_status" and "truthy sync_status"
    and "get_prop sync_status uuid \<noteq> Inr (JStr ''ok'')"
  shows "\<exists>entry. get_prop sync_status uuid = Inr entry \<and> entry \<noteq> JStr ''ok'' \<and>
     check_sync_status rt uuid result =
       Inl (JsError (''Move task failed: '' @ template_stringify rt entry))"
proof -
  from truthy_get_prop [OF assms(2)] obtain entry where e: "get_prop sync_status uuid = Inr entry"
    by blast
  with assms(3) have "entry \<noteq> JStr ''ok''" by simp
  with e assms(1,2) show ?thesis by (simp add: check_sync_status_def)
qed

lemma check_sync_status_passes:
  assumes "get_prop result ''sync_status'' = Inr sync_status" and "\<not> truthy sync_status"
  shows "check_sync_status rt uuid result = Inr result"
  using assms by (simp add: check_sync_status_def)

lemma moveTask_answer:
  "fetch rt = (\<lambda>req. Inr resp) \<Longrightarrow>
   client_moveTask rt tok taskId dest =
     (move_response rt (randomUUID rt) resp, [MoveTask taskId dest])"
  by (simp add: client_moveTask_def fetch_then_def Let_def)

text \<open>
  C1, as amended. After a successful HTTP exchange whose parsed body has a truthy
  \<^verbatim>\<open>sync_status\<close>, \<^verbatim>\<open>moveTask\<close> fails with \<^verbatim>\<open>Move task failed: ...\<close> whenever the entry for
  the generated identifier is anything but the string \<^verbatim>\<open>ok\<close>, a missing entry included,
  and returns the parsed body when the entry is \<^verbatim>\<open>ok\<close>. When \<^verbatim>\<open>sync_status\<close> itself is
  missing (or falsy), the check is skipped and the parsed body is returned. The
  \<^verbatim>\<open>move_task\<close> handler turns the failure into an error result.
\<close>

theorem moveTask_checks_status:
  assumes "fetch rt = (\<lambda>req. Inr resp)" and "response_ok resp"
    and "body_json resp = Inr result"
    and "get_prop result ''sync_status'' = Inr sync_status"
  shows "(truthy sync_status \<and> get_prop sync_status (randomUUID rt) \<noteq> Inr (JStr ''ok'') \<longrightarrow>
            (\<exists>entry. get_prop sync_status (randomUUID rt) = Inr entry \<and>
               client_moveTask rt tok taskId dest =
                 (Inl (JsError (''Move task failed: '' @ template_stringify rt entry)),
                  [MoveTask taskId dest])))
         \<and> (truthy sync_status \<and> get_prop sync_status (randomUUID rt) = Inr (JStr ''ok'') \<longrightarrow>
              client_moveTask rt tok taskId dest = (Inr result, [MoveTask taskId dest]))
         \<and> (\<not> truthy sync_status \<longrightarrow>
              client_moveTask rt tok taskId dest = (Inr result, [MoveTask taskId dest]))
         \<and> (truthy sync_status \<and> get_prop sync_status (randomUUID rt) \<noteq> Inr (JStr ''ok'')
              \<and> t \<in> set catalogue \<and> tool_name t = ''move_task''
              \<and> (truthy (lookup a ''project_id'') \<or> truthy (lookup a ''section_id'')
                   \<or> truthy (lookup a ''parent_id'')) \<longrightarrow>
              (\<exists>entry. get_prop sync_status (randomUUID rt) = Inr entry \<and>
                 fst (handler t rt this_props a) =
                   Inr (error_result (''Error moving task: Move task failed: ''
                                      @ template_stringify rt entry))))"
proof (intro conjI impI)
  assume a: "truthy sync_status \<and> get_prop sync_status (randomUUID rt) \<noteq> Inr (JStr ''ok'')"
  from check_sync_status_fails [OF assms(4), of "randomUUID rt" rt] a
  obtain entry where "get_prop sync_status (randomUUID rt) = Inr entry"
    and "check_sync_status rt (randomUUID rt) result =
       Inl (JsError (''Move task failed: '' @ template_stringify rt entry))"
    by blast
  with assms(2,3) show "\<exists>entry. get_prop sync_status (randomUUID rt) = Inr entry \<and>
               client_moveTask rt tok taskId dest =
                 (Inl (JsError (''Move task failed: '' @ template_stringify rt entry)),
                  [MoveTask taskId dest])"
    by (simp add: moveTask_answer [OF assms(1)] move_response_def)
next
  assume "truthy sync_status \<and> get_prop sync_status (randomUUID rt) = Inr (JStr ''ok'')"
  with assms(2-4) show "client_moveTask rt tok taskId dest = (Inr result, [MoveTask taskId dest])"
    by (simp add: moveTask_answer [OF assms(1)] move_response_def check_sync_status_def)
next
  assume "\<not> truthy sync_status"
  with assms(2,3) check_sync_status_passes [OF assms(4)]
  show "client_moveTask rt tok taskId dest = (Inr result, [MoveTask taskId dest])"
    by (simp add: moveTask_answer [OF assms(1)] move_response_def)
next
  assume a: "truthy sync_status \<and> get_prop sync_status (randomUUID rt) \<noteq> Inr (JStr ''ok'')
              \<and> t \<in> set catalogue \<and> tool_name t = ''move_task''
              \<and> (truthy (lookup a ''project_id'') \<or> truthy (lookup a ''section_id'')
                   \<or> truthy (lookup a ''parent_id''))"
  from check_sync_status_fails [OF assms(4), of "randomUUID rt" rt] a
  obtain entry where e: "get_prop sync_status (randomUUID rt) = Inr entry"
    and c: "check_sync_status rt (randomUUID rt) result =
       Inl (JsError (''Move task failed: '' @ template_stringify rt entry))"
    by blast
  from a move_task_entry [of t]
  have t: "catch_action t = Some ''moving task''" "tool_try t = move_task_try"
    by simp_all
  from a move_task_with_destination [of a rt this_props] obtain dest' where
    "move_task_try rt this_props a =
       bind_io (client_moveTask rt (accessToken this_props) (lookup a ''task_id'') dest')
         (\<lambda>result. return_io (text_result
            (''Task moved successfully.'' @ [CHR 0x0A] @ stringify_pretty rt result)))"
    by blast
  with assms(2,3) c t
  have "fst (handler t rt this_props a) =
          Inr (error_result (''Error moving task: Move task failed: '' @ template_stringify rt entry))"
    by (simp add: handler_def try_catch_def bind_io_def moveTask_answer [OF assms(1)]
          move_response_def)
  with e show "\<exists>entry. get_prop sync_status (randomUUID rt) = Inr entry \<and>
                 fst (handler t rt this_props a) =
                   Inr (error_result (''Error moving task: Move task failed: ''
                                      @ template_stringify rt entry))"
    by blast
qed

theorem moveTask_checks_status_witness:
  "response_ok rejected_move
   \<and> client_moveTask (example_runtime (Inr rejected_move)) ''token'' (JStr ''7'')
        [(''project_id'', JStr ''9'')] =
       (Inl (JsError ''Move task failed: <json>''),
        [MoveTask (JStr ''7'') [(''project_id'', JStr ''9'')]])"
  using moveTask_checks_status [of "example_runtime (Inr rejected_move)" rejected_move
      "JObj [(''sync_status'',
         JObj [(''3b241101-e2bb-4255-8caf-4136c566a962'',
                JObj [(''error_code'', JNum 22), (''error'', JStr ''Item not found'')])])]"
      "JObj [(''3b241101-e2bb-4255-8caf-4136c566a962'',
                JObj [(''error_code'', JNum 22), (''error'', JStr ''Item not found'')])]"
      "''token''" "JStr ''7''" "[(''project_id'', JStr ''9'')]"]
  by (simp add: example_runtime_def rejected_move_def response_ok_def lookup_def template_stringify_def)

text \<open>
  The claim as stated fails for a successful answer without a status map: the guard
  \<^verbatim>\<open>result.sync_status &&\<close> skips the check, \<^verbatim>\<open>moveTask\<close> returns the body and the handler
  reports success.
\<close>

theorem moveTask_missing_status_counterexample:
  "response_ok unreported_move
   \<and> body_json unreported_move = Inr (JObj [(''full_sync'', JBool False)])
   \<and> get_prop (JObj [(''full_sync'', JBool False)]) ''sync_status'' = Inr JUndefined
   \<and> client_moveTask (example_runtime (Inr unreported_move)) ''token'' (JStr ''7'')
        [(''project_id'', JStr ''9'')] =
       (Inr (JObj [(''full_sync'', JBool False)]),
        [MoveTask (JStr ''7'') [(''project_id'', JStr ''9'')]])
   \<and> handler \<lparr>tool_name = ''move_task'', catch_action = Some ''moving task'', tool_try = move_task_try\<rparr>
        (example_runtime (Inr unreported_move)) example_props
        [(''task_id'', JStr ''7''), (''project_id'', JStr ''9'')] =
       (Inr \<lparr>content_text = ''Task moved successfully.'' @ [CHR 0x0A] @ ''<json>'',
             isError = False\<rparr>,
        [MoveTask (JStr ''7'') [(''project_id'', JStr ''9'')]])"
  by (simp add: client_moveTask_def fetch_then_def move_response_def check_sync_status_def
        example_runtime_def unreported_move_def response_ok_def lookup_def handler_def
        try_catch_def move_task_try_def bind_io_def return_io_def text_result_def
        assign_if_def assign_def example_props_def)

section \<open>The query string of a GET request\<close>

lemma join_empty_iff: "(\<forall>x \<in> set xs. x \<noteq> []) \<Longrightarrow> join sep xs = [] \<longleftrightarrow> xs = []"
  by (induction sep xs rule: join.induct) auto

lemma form_serialize_empty_iff: "form_serialize entries = [] \<longleftrightarrow> entries = []"
  unfolding form_serialize_def
  by (subst join_empty_iff) (auto split: prod.splits)

lemma queryParams_member:
  "(k, s) \<in> set (queryParams params) \<longleftrightarrow> (\<exists>v. (k, v) \<in> set params \<and> truthy v \<and> s = js_String v)"
  by (auto simp add: queryParams_def image_iff)

lemma falsy_values: "v \<in> {JStr '''', JNum 0, JBool False, JNull, JUndefined} \<Longrightarrow> \<not> truthy v"
  by auto

lemma get_tasks_entry_all:
  "list_all (\<lambda>t. tool_name t = ''get_tasks'' \<longrightarrow>
      catch_action t = Some ''fetching tasks'' \<and> tool_try t = get_tasks_try) catalogue"
  by (simp add: catalogue_def registrations_def)

lemma get_tasks_entry:
  "t \<in> set catalogue \<Longrightarrow> tool_name t = ''get_tasks'' \<Longrightarrow>
     catch_action t = Some ''fetching tasks'' \<and> tool_try t = get_tasks_try"
  using get_tasks_entry_all by (simp add: list_all_iff)

lemma get_tasks_in_catalogue:
  "\<lparr>tool_name = ''get_tasks'', catch_action = Some ''fetching tasks'', tool_try = get_tasks_try\<rparr>
     \<in> set catalogue"
  by (simp add: catalogue_def registrations_def)

lemma snd_json_reply_get: "snd (json_reply rt (client_get rt tok ep ps)) = [Get ep ps]"
  by (simp add: json_reply_def bind_io_def client_get_def return_io_def split: sum.splits)

lemma snd_try_catch: "snd (try_catch m action) = snd m"
  by (simp add: try_catch_def split: prod.splits sum.splits)

lemma get_tasks_pagination:
  assumes "lookup a ''project_id'' = JUndefined" "lookup a ''section_id'' = JUndefined"
    "lookup a ''parent_id'' = JUndefined" "lookup a ''label'' = JUndefined"
    "lookup a ''ids'' = JUndefined" "lookup a ''cursor'' = JStr ''abc''" "lookup a ''limit'' = JNum 10"
  shows "snd (get_tasks_try rt p a) = [Get ''/tasks'' [(''cursor'', JStr ''abc''), (''limit'', JNum 10)]]"
  using assms by (simp add: get_tasks_try_def snd_json_reply_get assign_if_def assign_def)

lemma string_of_nat_10: "string_of_nat 10 = ''10''"
  by (simp add: string_of_nat.simps digit_char_def)

lemma pagination_url:
  "get_url ''/tasks'' [(''cursor'', JStr ''abc''), (''limit'', JNum 10)] =
     ''https://api.todoist.com/rest/v2/tasks?cursor=abc&limit=10''"
  by (simp add: get_url_def queryParams_def form_serialize_def form_encode_def form_encode_byte_def
      form_unreserved_def string_of_int_def string_of_nat_10 API_BASE_URL_def)

text \<open>
  C7. \<^verbatim>\<open>get\<close> requests the base URL and the path, followed by \<^verbatim>\<open>?\<close> and the form-encoded
  query when some parameter is truthy. The query holds, in order, exactly the parameters
  whose value is truthy, each with its string rendering; a parameter whose value is the
  empty string, 0, false, null or undefined leaves no trace. So \<^verbatim>\<open>get_tasks\<close> called with
  cursor \<^verbatim>\<open>abc\<close> and limit 10 performs one \<^verbatim>\<open>get\<close> on \<^verbatim>\<open>/tasks\<close> whose query is
  \<^verbatim>\<open>cursor=abc&limit=10\<close>.
\<close>

theorem get_sends_truthy_params:
  "client_get rt tok endpoint params =
     (fetch_then rt (get_request tok endpoint params) handleResponse, [Get endpoint params])
   \<and> req_url (get_request tok endpoint params) =
       API_BASE_URL @ endpoint @
         (if \<exists>(k, v) \<in> set params. truthy v then ''?'' @ form_serialize (queryParams params) else [])
   \<and> queryParams params = map (\<lambda>(k, v). (k, js_String v)) (filter (\<lambda>(k, v). truthy v) params)
   \<and> (\<forall>k s. (k, s) \<in> set (queryParams params) \<longleftrightarrow>
         (\<exists>v. (k, v) \<in> set params \<and> truthy v \<and> s = js_String v))
   \<and> (\<forall>v \<in> {JStr '''', JNum 0, JBool False, JNull, JUndefined}.
         queryParams (before @ [(k, v)] @ after) = queryParams (before @ after))
   \<and> (t \<in> set catalogue \<and> tool_name t = ''get_tasks''
        \<and> lookup a ''project_id'' = JUndefined \<and> lookup a ''section_id'' = JUndefined
        \<and> lookup a ''parent_id'' = JUndefined \<and> lookup a ''label'' = JUndefined
        \<and> lookup a ''ids'' = JUndefined
        \<and> lookup a ''cursor'' = JStr ''abc'' \<and> lookup a ''limit'' = JNum 10 \<longrightarrow>
        snd (handler t rt this_props a) =
          [Get ''/tasks'' [(''cursor'', JStr ''abc''), (''limit'', JNum 10)]]
        \<and> get_url ''/tasks'' [(''cursor'', JStr ''abc''), (''limit'', JNum 10)] =
            ''https://api.todoist.com/rest/v2/tasks?cursor=abc&limit=10'')"
proof (intro conjI)
  show "client_get rt tok endpoint params =
     (fetch_then rt (get_request tok endpoint params) handleResponse, [Get endpoint params])"
    by (simp add: client_get_def)
  have "(queryParams params = []) \<longleftrightarrow> \<not> (\<exists>(k, v) \<in> set params. truthy v)"
    by (auto simp add: queryParams_def filter_empty_conv)
  then show "req_url (get_request tok endpoint params) =
       API_BASE_URL @ endpoint @
         (if \<exists>(k, v) \<in> set params. truthy v then ''?'' @ form_serialize (queryParams params) else [])"
    by (simp add: get_request_def get_url_def Let_def form_serialize_empty_iff)
  show "queryParams params = map (\<lambda>(k, v). (k, js_String v)) (filter (\<lambda>(k, v). truthy v) params)"
    by (simp add: queryParams_def)
  show "\<forall>k s. (k, s) \<in> set (queryParams params) \<longleftrightarrow>
         (\<exists>v. (k, v) \<in> set params \<and> truthy v \<and> s = js_String v)"
    by (simp add: queryParams_member)
  show "\<forall>v \<in> {JStr '''', JNum 0, JBool False, JNull, JUndefined}.
         queryParams (before @ [(k, v)] @ after) = queryParams (before @ after)"
    by (simp add: queryParams_def)
  show "t \<in> set catalogue \<and> tool_name t = ''get_tasks''
        \<and> lookup a ''project_id'' = JUndefined \<and> lookup a ''section_id'' = JUndefined
        \<and> lookup a ''parent_id'' = JUndefined \<and> lookup a ''label'' = JUndefined
        \<and> lookup a ''ids'' = JUndefined
        \<and> lookup a ''cursor'' = JStr ''abc'' \<and> lookup a ''limit'' = JNum 10 \<longrightarrow>
        snd (handler t rt this_props a) =
          [Get ''/tasks'' [(''cursor'', JStr ''abc''), (''limit'', JNum 10)]]
        \<and> get_url ''/tasks'' [(''cursor'', JStr ''abc''), (''limit'', JNum 10)] =
            ''https://api.todoist.com/rest/v2/tasks?cursor=abc&limit=10''"
    using get_tasks_entry [of t]
    by (auto simp add: handler_def snd_try_catch get_tasks_pagination pagination_url)
qed

theorem get_sends_truthy_params_witness:
  "req_url (get_request ''token'' ''/tasks''
      [(''cursor'', JStr ''abc''), (''label'', JStr ''''), (''limit'', JNum 10)]) =
     ''https://api.todoist.com/rest/v2/tasks?cursor=abc&limit=10''
   \<and> req_url (get_request ''token'' ''/tasks'' [(''filter'', JStr ''today & p1'')]) =
     ''https://api.todoist.com/rest/v2/tasks?filter=today+%26+p1''
   \<and> snd (handler \<lparr>tool_name = ''get_tasks'', catch_action = Some ''fetching tasks'',
                     tool_try = get_tasks_try\<rparr>
            (example_runtime (Inl NonError)) example_props
            [(''cursor'', JStr ''abc''), (''limit'', JNum 10)]) =
       [Get ''/tasks'' [(''cursor'', JStr ''abc''), (''limit'', JNum 10)]]"
proof -
  have enc: "form_serialize [(''filter'', ''today & p1'')] = ''filter=today+%26+p1''"
    by (simp add: form_serialize_def form_encode_def form_encode_byte_def form_unreserved_def
          hex_char_def)
  have q1: "queryParams [(''cursor'', JStr ''abc''), (''label'', JStr ''''), (''limit'', JNum 10)]
      = [(''cursor'', ''abc''), (''limit'', ''10'')]"
    by (simp add: queryParams_def string_of_int_def string_of_nat_10)
  have ser: "form_serialize [(''cursor'', ''abc''), (''limit'', ''10'')] = ''cursor=abc&limit=10''"
    by (simp add: form_serialize_def form_encode_def form_encode_byte_def form_unreserved_def)
  have q2: "queryParams [(''filter'', JStr ''today & p1'')] = [(''filter'', ''today & p1'')]"
    by (simp add: queryParams_def)
  from get_sends_truthy_params [where tok = "''token''" and endpoint = "''/tasks''"
      and params = "[(''cursor'', JStr ''abc''), (''label'', JStr ''''), (''limit'', JNum 10)]"
      and t = "\<lparr>tool_name = ''get_tasks'', catch_action = Some ''fetching tasks'',
                tool_try = get_tasks_try\<rparr>"
      and rt = "example_runtime (Inl NonError)" and this_props = example_props
      and a = "[(''cursor'', JStr ''abc''), (''limit'', JNum 10)]"]
    get_sends_truthy_params [where tok = "''token''" and endpoint = "''/tasks''"
      and params = "[(''filter'', JStr ''today & p1'')]"]
    get_tasks_in_catalogue
  show ?thesis
    by (simp add: q1 q2 ser enc lookup_def API_BASE_URL_def)
qed

section \<open>The filtered task query\<close>

lemma get_prop_field: "v \<noteq> JUndefined \<Longrightarrow> v \<noteq> JNull \<Longrightarrow> get_prop v k = Inr (field v k)"
  by (cases v) (simp_all add: field_def)

lemma field_nothing [simp]: "field JUndefined k = JUndefined" "field JNull k = JUndefined"
  by (simp_all add: field_def)

lemma formatTask_projection:
  "task \<noteq> JUndefined \<Longrightarrow> task \<noteq> JNull \<Longrightarrow> formatTask task = Inr (projection task)"
  by (simp add: formatTask_def get_prop_field projection_def due_dot_date_def)

lemma formatTask_throws:
  "task = JUndefined \<or> task = JNull \<Longrightarrow> \<exists>e. formatTask task = Inl e"
  by (auto simp add: formatTask_def)

lemma map_throw_formatTask:
  "map_throw formatTask xs = Inr ys \<Longrightarrow>
     ys = map projection xs \<and> (\<forall>x \<in> set xs. x \<noteq> JUndefined \<and> x \<noteq> JNull)"
proof (induction xs arbitrary: ys)
  case Nil
  then show ?case by simp
next
  case (Cons x xs)
  show ?case
  proof (cases "x = JUndefined \<or> x = JNull")
    case True
    with formatTask_throws [of x] Cons.prems show ?thesis by auto
  next
    case False
    with Cons show ?thesis
      by (auto simp add: formatTask_projection split: sum.splits)
  qed
qed

lemma tasks_map_formatTask:
  "tasks_map formatTask tasks = Inr ys \<Longrightarrow>
     \<exists>xs. tasks = JArr xs \<and> ys = map projection xs \<and> (\<forall>x \<in> set xs. x \<noteq> JUndefined \<and> x \<noteq> JNull)"
  by (cases tasks) (auto dest: map_throw_formatTask)

lemma filter_entry_all:
  "list_all (\<lambda>t. tool_name t = ''get_tasks_by_filter'' \<longrightarrow>
      catch_action t = Some ''fetching tasks'' \<and> tool_try t = get_tasks_by_filter_try) catalogue"
  by (simp add: catalogue_def registrations_def)

lemma filter_entry:
  "t \<in> set catalogue \<Longrightarrow> tool_name t = ''get_tasks_by_filter'' \<Longrightarrow>
     catch_action t = Some ''fetching tasks'' \<and> tool_try t = get_tasks_by_filter_try"
  using filter_entry_all by (simp add: list_all_iff)

lemma filter_in_catalogue:
  "\<lparr>tool_name = ''get_tasks_by_filter'', catch_action = Some ''fetching tasks'',
    tool_try = get_tasks_by_filter_try\<rparr> \<in> set catalogue"
  by (simp add: catalogue_def registrations_def)

lemma filter_try_success:
  assumes "get_tasks_by_filter_try rt p a = (Inr r, tr)"
  shows "\<exists>tasks. client_get rt (accessToken p) ''/tasks'' [(''filter'', lookup a ''filter'')] =
            (Inr (JArr tasks), tr)
          \<and> (\<forall>task \<in> set tasks. task \<noteq> JUndefined \<and> task \<noteq> JNull)
          \<and> r = text_result (stringify_pretty rt (JArr (map projection tasks)))"
proof -
  obtain res tr0 where c: "client_get rt (accessToken p) ''/tasks'' [(''filter'', lookup a ''filter'')] = (res, tr0)"
    by (cases "client_get rt (accessToken p) ''/tasks'' [(''filter'', lookup a ''filter'')]")
  show ?thesis
  proof (cases res)
    case (Inl e)
    with assms c show ?thesis
      by (simp add: get_tasks_by_filter_try_def bind_io_def)
  next
    case (Inr tasks)
    show ?thesis
    proof (cases "tasks_map formatTask tasks")
      case (Inl e)
      with assms c Inr show ?thesis
        by (simp add: get_tasks_by_filter_try_def bind_io_def throw_io_def)
    next
      case ys: (Inr ys)
      from tasks_map_formatTask [OF ys] obtain xs where
        "tasks = JArr xs" "ys = map projection xs" "\<forall>x \<in> set xs. x \<noteq> JUndefined \<and> x \<noteq> JNull"
        by blast
      with assms c Inr ys show ?thesis
        by (simp add: get_tasks_by_filter_try_def bind_io_def return_io_def)
    qed
  qed
qed

text \<open>
  C8, as amended. When \<^verbatim>\<open>get_tasks_by_filter\<close> succeeds, the client's \<^verbatim>\<open>get\<close> on \<^verbatim>\<open>/tasks\<close>
  returned an array, and the text is the serialization of that array with every task
  replaced by the three fields \<^verbatim>\<open>content\<close>, \<^verbatim>\<open>description\<close>, \<^verbatim>\<open>due_date\<close>, where
  \<^verbatim>\<open>due_date\<close> is the task's \<^verbatim>\<open>due.date\<close> when that value is truthy and null otherwise.
\<close>

theorem filter_projects_tasks:
  assumes "t \<in> set catalogue" and "tool_name t = ''get_tasks_by_filter''"
    and "handler t rt this_props a = (Inr r, tr)" and "isError r = False"
  shows "\<exists>tasks. client_get rt (accessToken this_props) ''/tasks'' [(''filter'', lookup a ''filter'')] =
            (Inr (JArr tasks), tr)
          \<and> (\<forall>task \<in> set tasks. formatTask task = Inr (projection task))
          \<and> r = text_result (stringify_pretty rt (JArr (map projection tasks)))"
proof -
  from filter_entry [OF assms(1,2)] assms(3)
  have h: "try_catch (get_tasks_by_filter_try rt this_props a) ''fetching tasks'' = (Inr r, tr)"
    by (simp add: handler_def)
  obtain res tr0 where b: "get_tasks_by_filter_try rt this_props a = (res, tr0)"
    by (cases "get_tasks_by_filter_try rt this_props a")
  with h assms(4) have "get_tasks_by_filter_try rt this_props a = (Inr r, tr)"
    by (cases res) (auto simp add: try_catch_def error_result_def)
  from filter_try_success [OF this] show ?thesis
    by (auto simp add: formatTask_projection)
qed

theorem filter_projects_tasks_witness:
  "handler \<lparr>tool_name = ''get_tasks_by_filter'', catch_action = Some ''fetching tasks'',
            tool_try = get_tasks_by_filter_try\<rparr>
     (example_runtime (Inr \<lparr>status = 200, body_text = [], body_json = Inr (JArr [undated_task])\<rparr>))
     example_props [(''filter'', JStr ''today'')] =
     (Inr (text_result ''<json>''), [Get ''/tasks'' [(''filter'', JStr ''today'')]])
   \<and> (\<exists>tasks.
         client_get
           (example_runtime (Inr \<lparr>status = 200, body_text = [], body_json = Inr (JArr [undated_task])\<rparr>))
           (accessToken example_props) ''/tasks'' [(''filter'', lookup [(''filter'', JStr ''today'')] ''filter'')] =
           (Inr (JArr tasks), [Get ''/tasks'' [(''filter'', JStr ''today'')]])
         \<and> (\<forall>task \<in> set tasks. formatTask task = Inr (projection task))
         \<and> text_result ''<json>'' =
             text_result (stringify_pretty
               (example_runtime (Inr \<lparr>status = 200, body_text = [], body_json = Inr (JArr [undated_task])\<rparr>))
               (JArr (map projection tasks))))"
proof -
  have run: "handler \<lparr>tool_name = ''get_tasks_by_filter'', catch_action = Some ''fetching tasks'',
            tool_try = get_tasks_by_filter_try\<rparr>
     (example_runtime (Inr \<lparr>status = 200, body_text = [], body_json = Inr (JArr [undated_task])\<rparr>))
     example_props [(''filter'', JStr ''today'')] =
     (Inr (text_result ''<json>''), [Get ''/tasks'' [(''filter'', JStr ''today'')]])"
    by (simp add: handler_def try_catch_def get_tasks_by_filter_try_def bind_io_def return_io_def
          client_get_def fetch_then_def example_runtime_def handleResponse_def response_ok_def
          formatTask_def undated_task_def lookup_def)
  have ok: "isError (text_result ''<json>'') = False"
    by (simp add: text_result_def)
  from filter_projects_tasks [OF filter_in_catalogue _ run ok] run show ?thesis
    by simp
qed

text \<open>
  The claim as stated fails for a task whose \<^verbatim>\<open>due.date\<close> is present and is the empty
  string: \<^verbatim>\<open>task.due?.date || null\<close> yields null, not the date.
\<close>

theorem due_date_present_counterexample:
  "due_dot_date undated_task = JStr ''''
   \<and> spec_projection undated_task =
       JObj [(''content'', JStr ''Buy milk''), (''description'', JStr ''''), (''due_date'', JStr '''')]
   \<and> formatTask undated_task =
       Inr (JObj [(''content'', JStr ''Buy milk''), (''description'', JStr ''''), (''due_date'', JNull)])
   \<and> formatTask undated_task \<noteq> Inr (spec_projection undated_task)"
  by (simp add: formatTask_def undated_task_def spec_projection_def due_dot_date_def field_def lookup_def)

section \<open>Optional fields in request bodies\<close>

lemma key_assign_if:
  "k' \<in> fst ` set (assign_if c k v obj) \<longleftrightarrow> (c \<and> k' = k) \<or> k' \<in> fst ` set obj"
  by (auto simp add: assign_if_def assign_def dom_update)

lemma lookup_assign_if:
  "lookup (assign_if c k v obj) k' = (if c \<and> k' = k then v else lookup obj k')"
  by (simp add: assign_if_def assign_def lookup_def update_conv')

lemma lookup_Nil [simp]: "lookup [] k = JUndefined"
  by (simp add: lookup_def)

lemma lookup_Cons: "lookup ((k, v) # obj) k' = (if k' = k then v else lookup obj k')"
  by (simp add: lookup_def)

lemma snd_json_reply_post: "snd (json_reply rt (client_post rt tok ep d)) = [Post ep d]"
  by (simp add: json_reply_def bind_io_def client_post_def return_io_def split: sum.splits)

lemma update_project_body:
  "\<exists>updateData.
     snd (update_project_try rt p a) = [Post (''/projects/'' @ js_String (lookup a ''project_id'')) updateData]
     \<and> (\<forall>k \<in> {''name'', ''description'', ''color'', ''is_favorite'', ''view_style''}.
          (k \<in> fst ` set updateData \<longleftrightarrow> lookup a k \<noteq> JUndefined) \<and> lookup updateData k = lookup a k)
     \<and> ((\<forall>k \<in> {''name'', ''description'', ''color'', ''is_favorite'', ''view_style''}. lookup a k = JUndefined) \<longrightarrow> updateData = [])"
proof -
  let ?d = "assign_if (lookup a ''view_style'' \<noteq> JUndefined) ''view_style'' (lookup a ''view_style'')
        (assign_if (lookup a ''is_favorite'' \<noteq> JUndefined) ''is_favorite'' (lookup a ''is_favorite'')
        (assign_if (lookup a ''color'' \<noteq> JUndefined) ''color'' (lookup a ''color'')
        (assign_if (lookup a ''description'' \<noteq> JUndefined) ''description'' (lookup a ''description'')
        (assign_if (lookup a ''name'' \<noteq> JUndefined) ''name'' (lookup a ''name'')
        ([])))))"
  have tr: "snd (update_project_try rt p a) = [Post (''/projects/'' @ js_String (lookup a ''project_id'')) ?d]"
    by (simp add: update_project_try_def Let_def snd_json_reply_post)
  have keys: "(\<forall>k \<in> {''name'', ''description'', ''color'', ''is_favorite'', ''view_style''}.
          (k \<in> fst ` set ?d \<longleftrightarrow> lookup a k \<noteq> JUndefined) \<and> lookup ?d k = lookup a k)"
    by (simp add: key_assign_if lookup_assign_if lookup_Cons)
  have none: "(\<forall>k \<in> {''name'', ''description'', ''color'', ''is_favorite'', ''view_style''}. lookup a k = JUndefined) \<longrightarrow> ?d = []"
    by (simp add: assign_if_def)
  show ?thesis
    by (rule exI [of _ ?d]) (intro conjI tr keys none)
qed

lemma update_task_body:
  "\<exists>updateData.
     snd (update_task_try rt p a) = [Post (''/tasks/'' @ js_String (lookup a ''task_id'')) updateData]
     \<and> (\<forall>k \<in> {''content'', ''description'', ''labels'', ''priority'', ''due_string'', ''due_date'', ''due_datetime'', ''deadline_date'', ''assignee_id''}.
          (k \<in> fst ` set updateData \<longleftrightarrow> lookup a k \<noteq> JUndefined) \<and> lookup updateData k = lookup a k)"
proof -
  let ?d = "assign_if (lookup a ''assignee_id'' \<noteq> JUndefined) ''assignee_id'' (lookup a ''assignee_id'')
        (assign_if (lookup a ''deadline_date'' \<noteq> JUndefined) ''deadline_date'' (lookup a ''deadline_date'')
        (assign_if (lookup a ''due_datetime'' \<noteq> JUndefined) ''due_datetime'' (lookup a ''due_datetime'')
        (assign_if (lookup a ''due_date'' \<noteq> JUndefined) ''due_date'' (lookup a ''due_date'')
        (assign_if (lookup a ''due_string'' \<noteq> JUndefined) ''due_string'' (lookup a ''due_string'')
        (assign_if (lookup a ''priority'' \<noteq> JUndefined) ''priority'' (lookup a ''priority'')
        (assign_if (lookup a ''labels'' \<noteq> JUndefined) ''labels'' (lookup a ''labels'')
        (assign_if (lookup a ''description'' \<noteq> JUndefined) ''description'' (lookup a ''description'')
        (assign_if (lookup a ''content'' \<noteq> JUndefined) ''content'' (lookup a ''content'')
        ([])))))))))"
  have tr: "snd (update_task_try rt p a) = [Post (''/tasks/'' @ js_String (lookup a ''task_id'')) ?d]"
    by (simp add: update_task_try_def Let_def snd_json_reply_post)
  have keys: "(\<forall>k \<in> {''content'', ''description'', ''labels'', ''priority'', ''due_string'', ''due_date'', ''due_datetime'', ''deadline_date'', ''assignee_id''}.
          (k \<in> fst ` set ?d \<longleftrightarrow> lookup a k \<noteq> JUndefined) \<and> lookup ?d k = lookup a k)"
    by (simp add: key_assign_if lookup_assign_if lookup_Cons)
  show ?thesis
    by (rule exI [of _ ?d]) (intro conjI tr keys)
qed

lemma update_label_body:
  "\<exists>updateData.
     snd (update_label_try rt p a) = [Post (''/labels/'' @ js_String (lookup a ''label_id'')) updateData]
     \<and> (\<forall>k \<in> {''name'', ''color'', ''order'', ''is_favorite''}.
          (k \<in> fst ` set updateData \<longleftrightarrow> lookup a k \<noteq> JUndefined) \<and> lookup updateData k = lookup a k)"
proof -
  let ?d = "assign_if (lookup a ''is_favorite'' \<noteq> JUndefined) ''is_favorite'' (lookup a ''is_favorite'')
        (assign_if (lookup a ''order'' \<noteq> JUndefined) ''order'' (lookup a ''order'')
        (assign_if (lookup a ''color'' \<noteq> JUndefined) ''color'' (lookup a ''color'')
        (assign_if (lookup a ''name'' \<noteq> JUndefined) ''name'' (lookup a ''name'')
        ([]))))"
  have tr: "snd (update_label_try rt p a) = [Post (''/labels/'' @ js_String (lookup a ''label_id'')) ?d]"
    by (simp add: update_label_try_def Let_def snd_json_reply_post)
  have keys: "(\<forall>k \<in> {''name'', ''color'', ''order'', ''is_favorite''}.
          (k \<in> fst ` set ?d \<longleftrightarrow> lookup a k \<noteq> JUndefined) \<and> lookup ?d k = lookup a k)"
    by (simp add: key_assign_if lookup_assign_if lookup_Cons)
  show ?thesis
    by (rule exI [of _ ?d]) (intro conjI tr keys)
qed

lemma create_task_body:
  "\<exists>taskData.
     snd (create_task_try rt p a) = [Post (''/tasks'') taskData]
     \<and> (\<forall>k \<in> {''description'', ''project_id'', ''section_id'', ''parent_id'', ''labels'', ''priority'', ''due_string'', ''due_date'', ''due_datetime'', ''deadline_date'', ''assignee_id''}.
          (k \<in> fst ` set taskData \<longleftrightarrow> truthy (lookup a k)) \<and> lookup taskData k = (if truthy (lookup a k) then lookup a k else JUndefined))"
proof -
  let ?d = "assign_if (truthy (lookup a ''assignee_id'')) ''assignee_id'' (lookup a ''assignee_id'')
        (assign_if (truthy (lookup a ''deadline_date'')) ''deadline_date'' (lookup a ''deadline_date'')
        (assign_if (truthy (lookup a ''due_datetime'')) ''due_datetime'' (lookup a ''due_datetime'')
        (assign_if (truthy (lookup a ''due_date'')) ''due_date'' (lookup a ''due_date'')
        (assign_if (truthy (lookup a ''due_string'')) ''due_string'' (lookup a ''due_string'')
        (assign_if (truthy (lookup a ''priority'')) ''priority'' (lookup a ''priority'')
        (assign_if (truthy (lookup a ''labels'')) ''labels'' (lookup a ''labels'')
        (assign_if (truthy (lookup a ''parent_id'')) ''parent_id'' (lookup a ''parent_id'')
        (assign_if (truthy (lookup a ''section_id'')) ''section_id'' (lookup a ''section_id'')
        (assign_if (truthy (lookup a ''project_id'')) ''project_id'' (lookup a ''project_id'')
        (assign_if (truthy (lookup a ''description'')) ''description'' (lookup a ''description'')
        ([(''content'', lookup a ''content'')])))))))))))"
  have tr: "snd (create_task_try rt p a) = [Post (''/tasks'') ?d]"
    by (simp add: create_task_try_def Let_def snd_json_reply_post)
  have keys: "(\<forall>k \<in> {''description'', ''project_id'', ''section_id'', ''parent_id'', ''labels'', ''priority'', ''due_string'', ''due_date'', ''due_datetime'', ''deadline_date'', ''assignee_id''}.
          (k \<in> fst ` set ?d \<longleftrightarrow> truthy (lookup a k)) \<and> lookup ?d k = (if truthy (lookup a k) then lookup a k else JUndefined))"
    by (simp add: key_assign_if lookup_assign_if lookup_Cons)
  show ?thesis
    by (rule exI [of _ ?d]) (intro conjI tr keys)
qed

lemma body_entries_all:
  "list_all (\<lambda>t.
      (tool_name t = ''update_project'' \<longrightarrow>
         catch_action t = Some ''updating project'' \<and> tool_try t = update_project_try)
    \<and> (tool_name t = ''update_task'' \<longrightarrow>
         catch_action t = Some ''updating task'' \<and> tool_try t = update_task_try)
    \<and> (tool_name t = ''update_label'' \<longrightarrow>
         catch_action t = Some ''updating label'' \<and> tool_try t = update_label_try)
    \<and> (tool_name t = ''create_task'' \<longrightarrow>
         catch_action t = Some ''creating task'' \<and> tool_try t = create_task_try)) catalogue"
  by (simp add: catalogue_def registrations_def)

lemma body_entries:
  assumes "t \<in> set catalogue"
  shows "tool_name t = ''update_project'' \<Longrightarrow>
           snd (handler t rt p a) = snd (update_project_try rt p a)"
    and "tool_name t = ''update_task'' \<Longrightarrow> snd (handler t rt p a) = snd (update_task_try rt p a)"
    and "tool_name t = ''update_label'' \<Longrightarrow> snd (handler t rt p a) = snd (update_label_try rt p a)"
    and "tool_name t = ''create_task'' \<Longrightarrow> snd (handler t rt p a) = snd (create_task_try rt p a)"
  using assms body_entries_all by (simp_all add: list_all_iff handler_def snd_try_catch)

lemma update_project_in_catalogue:
  "\<lparr>tool_name = ''update_project'', catch_action = Some ''updating project'',
    tool_try = update_project_try\<rparr> \<in> set catalogue"
  by (simp add: catalogue_def registrations_def)

text \<open>
  C6, as amended. The handlers \<^verbatim>\<open>update_project\<close>, \<^verbatim>\<open>update_task\<close> and \<^verbatim>\<open>update_label\<close>
  post a body that has a key for an optional parameter exactly when the caller's input is
  not undefined, with the caller's value; \<^verbatim>\<open>update_project\<close> given only \<^verbatim>\<open>project_id\<close>
  posts the empty object. \<^verbatim>\<open>create_task\<close> tests its optional inputs for truthiness
  instead: a key is in the body exactly when the input is truthy.
\<close>

theorem optional_fields_in_bodies:
  assumes "t \<in> set catalogue"
  shows "(tool_name t = ''update_project'' \<longrightarrow>
      (\<exists>updateData.
      snd (handler t rt this_props a) = [Post (''/projects/'' @ js_String (lookup a ''project_id'')) updateData]
      \<and> (\<forall>k \<in> {''name'', ''description'', ''color'', ''is_favorite'', ''view_style''}.
      (k \<in> fst ` set updateData \<longleftrightarrow> lookup a k \<noteq> JUndefined) \<and> lookup updateData k = lookup a k)
      \<and> ((\<forall>k \<in> {''name'', ''description'', ''color'', ''is_favorite'', ''view_style''}. lookup a k = JUndefined) \<longrightarrow> updateData = [])))
   \<and> (tool_name t = ''update_task'' \<longrightarrow>
      (\<exists>updateData.
      snd (handler t rt this_props a) = [Post (''/tasks/'' @ js_String (lookup a ''task_id'')) updateData]
      \<and> (\<forall>k \<in> {''content'', ''description'', ''labels'', ''priority'', ''due_string'', ''due_date'', ''due_datetime'', ''deadline_date'', ''assignee_id''}.
      (k \<in> fst ` set updateData \<longleftrightarrow> lookup a k \<noteq> JUndefined) \<and> lookup updateData k = lookup a k)))
   \<and> (tool_name t = ''update_label'' \<longrightarrow>
      (\<exists>updateData.
      snd (handler t rt this_props a) = [Post (''/labels/'' @ js_String (lookup a ''label_id'')) updateData]
      \<and> (\<forall>k \<in> {''name'', ''color'', ''order'', ''is_favorite''}.
      (k \<in> fst ` set updateData \<longleftrightarrow> lookup a k \<noteq> JUndefined) \<and> lookup updateData k = lookup a k)))
   \<and> (tool_name t = ''create_task'' \<longrightarrow>
      (\<exists>taskData.
      snd (handler t rt this_props a) = [Post (''/tasks'') taskData]
      \<and> (\<forall>k \<in> {''description'', ''project_id'', ''section_id'', ''parent_id'', ''labels'', ''priority'', ''due_string'', ''due_date'', ''due_datetime'', ''deadline_date'', ''assignee_id''}.
      (k \<in> fst ` set taskData \<longleftrightarrow> truthy (lookup a k)) \<and> lookup taskData k = (if truthy (lookup a k) then lookup a k else JUndefined))))"
proof (intro conjI impI)
  assume n: "tool_name t = ''update_project''"
  show "\<exists>updateData.
      snd (handler t rt this_props a) = [Post (''/projects/'' @ js_String (lookup a ''project_id'')) updateData]
      \<and> (\<forall>k \<in> {''name'', ''description'', ''color'', ''is_favorite'', ''view_style''}.
      (k \<in> fst ` set updateData \<longleftrightarrow> lookup a k \<noteq> JUndefined) \<and> lookup updateData k = lookup a k)
      \<and> ((\<forall>k \<in> {''name'', ''description'', ''color'', ''is_favorite'', ''view_style''}. lookup a k = JUndefined) \<longrightarrow> updateData = [])"
    unfolding body_entries(1) [OF assms n] by (rule update_project_body)
next
  assume n: "tool_name t = ''update_task''"
  show "\<exists>updateData.
      snd (handler t rt this_props a) = [Post (''/tasks/'' @ js_String (lookup a ''task_id'')) updateData]
      \<and> (\<forall>k \<in> {''content'', ''description'', ''labels'', ''priority'', ''due_string'', ''due_date'', ''due_datetime'', ''deadline_date'', ''assignee_id''}.
      (k \<in> fst ` set updateData \<longleftrightarrow> lookup a k \<noteq> JUndefined) \<and> lookup updateData k = lookup a k)"
    unfolding body_entries(2) [OF assms n] by (rule update_task_body)
next
  assume n: "tool_name t = ''update_label''"
  show "\<exists>updateData.
      snd (handler t rt this_props a) = [Post (''/labels/'' @ js_String (lookup a ''label_id'')) updateData]
      \<and> (\<forall>k \<in> {''name'', ''color'', ''order'', ''is_favorite''}.
      (k \<in> fst ` set updateData \<longleftrightarrow> lookup a k \<noteq> JUndefined) \<and> lookup updateData k = lookup a k)"
    unfolding body_entries(3) [OF assms n] by (rule update_label_body)
next
  assume n: "tool_name t = ''create_task''"
  show "\<exists>taskData.
      snd (handler t rt this_props a) = [Post (''/tasks'') taskData]
      \<and> (\<forall>k \<in> {''description'', ''project_id'', ''section_id'', ''parent_id'', ''labels'', ''priority'', ''due_string'', ''due_date'', ''due_datetime'', ''deadline_date'', ''assignee_id''}.
      (k \<in> fst ` set taskData \<longleftrightarrow> truthy (lookup a k)) \<and> lookup taskData k = (if truthy (lookup a k) then lookup a k else JUndefined))"
    unfolding body_entries(4) [OF assms n] by (rule create_task_body)
qed

theorem optional_fields_in_bodies_witness:
  "snd (handler \<lparr>tool_name = ''update_project'', catch_action = Some ''updating project'',
                  tool_try = update_project_try\<rparr>
          (example_runtime (Inl NonError)) example_props [(''project_id'', JStr ''1'')]) =
     [Post ''/projects/1'' []]"
  using optional_fields_in_bodies [OF update_project_in_catalogue,
      where a = "[(''project_id'', JStr ''1'')]" and rt = "example_runtime (Inl NonError)"
        and this_props = example_props]
  by (auto simp add: lookup_def)

text \<open>
  The claim as stated fails for \<^verbatim>\<open>create_task\<close>: a description supplied as the empty
  string is not undefined, yet \<^verbatim>\<open>if (description)\<close> keeps it out of the posted body.
\<close>

theorem create_task_empty_description_counterexample:
  "lookup [(''content'', JStr ''Buy milk''), (''description'', JStr '''')] ''description'' \<noteq> JUndefined
   \<and> snd (handler \<lparr>tool_name = ''create_task'', catch_action = Some ''creating task'',
                     tool_try = create_task_try\<rparr>
            (example_runtime (Inl NonError)) example_props
            [(''content'', JStr ''Buy milk''), (''description'', JStr '''')]) =
       [Post ''/tasks'' [(''content'', JStr ''Buy milk'')]]
   \<and> ''description'' \<notin> fst ` set [(''content'', JStr ''Buy milk'')]"
  by (simp add: handler_def snd_try_catch create_task_try_def snd_json_reply_post lookup_def
        assign_if_def)

section \<open>Failures inside the handlers\<close>

lemma uncaught_is_me_all:
  "list_all (\<lambda>t. catch_action t = None \<longrightarrow> tool_try t = me_body) catalogue"
  by (simp add: catalogue_def registrations_def)

lemma uncaught_is_me:
  "t \<in> set catalogue \<Longrightarrow> catch_action t = None \<Longrightarrow> tool_try t = me_body"
  using uncaught_is_me_all by (simp add: list_all_iff)

lemma me_body_returns:
  "\<exists>r. me_body rt p a = (Inr r, [])"
  by (simp add: me_body_def return_io_def)

lemma run_registrations_subset:
  "run_registrations minimal essential rs server = Inr server' \<Longrightarrow>
     set server' \<subseteq> set server \<union> registered_tool ` set rs"
proof (induction rs arbitrary: server)
  case Nil
  then show ?case by simp
next
  case (Cons r rs)
  show ?case
  proof (cases r)
    case (Always t)
    with Cons.prems obtain s1 where s1: "server_tool t server = Inr s1"
      and rest: "run_registrations minimal essential rs s1 = Inr server'"
      by (auto split: sum.splits)
    from s1 have "set s1 \<subseteq> insert t (set server)"
      by (auto simp add: server_tool_def split: if_splits)
    with Cons.IH [OF rest] Always show ?thesis by auto
  next
    case (Guarded g t)
    show ?thesis
    proof (cases "shouldRegisterTool minimal essential g")
      case True
      with Cons.prems Guarded obtain s1 where s1: "server_tool t server = Inr s1"
        and rest: "run_registrations minimal essential rs s1 = Inr server'"
        by (auto split: sum.splits)
      from s1 have "set s1 \<subseteq> insert t (set server)"
        by (auto simp add: server_tool_def split: if_splits)
      with Cons.IH [OF rest] Guarded show ?thesis by auto
    next
      case False
      with Cons.prems Guarded have "run_registrations minimal essential rs server = Inr server'"
        by simp
      from Cons.IH [OF this] Guarded show ?thesis by auto
    qed
  qed
qed

lemma init_registers_catalogue:
  "init minimal essential = Inr server \<Longrightarrow> set server \<subseteq> set catalogue"
  using run_registrations_subset [of minimal essential registrations "[]" server]
  by (simp add: init_def catalogue_def)

lemma refused:
  assumes "fetch rt = (\<lambda>req. Inr resp)" and "\<not> response_ok resp"
  shows "client_get rt tok ep ps =
           (Inl (JsError (''Todoist API error ('' @ string_of_nat (status resp) @ ''): '' @ body_text resp)),
            [Get ep ps])"
    and "client_post rt tok ep d =
           (Inl (JsError (''Todoist API error ('' @ string_of_nat (status resp) @ ''): '' @ body_text resp)),
            [Post ep d])"
    and "client_delete rt tok ep =
           (Inl (JsError (''Todoist API error ('' @ string_of_nat (status resp) @ ''): '' @ body_text resp)),
            [Delete ep])"
    and "client_moveTask rt tok taskId dest =
           (Inl (JsError (''Todoist Sync API error ('' @ string_of_nat (status resp) @ ''): '' @ body_text resp)),
            [MoveTask taskId dest])"
  using assms
  by (simp_all add: client_get_def client_post_def client_delete_def client_moveTask_def
        fetch_then_def handleResponse_def move_response_def)

lemma reply_throws:
  "json_reply rt (Inl e, tr) = (Inl e, tr)" "fixed_reply (Inl e, tr) txt = (Inl e, tr)"
  "bind_io (Inl e, tr) f = (Inl e, tr)"
  by (simp_all add: json_reply_def fixed_reply_def bind_io_def)

lemma refused_all:
  assumes "fetch rt = (\<lambda>req. Inr resp)" and "\<not> response_ok resp"
  shows "list_all (\<lambda>t. \<forall>p a.
            snd (tool_try t rt p a) = []
          \<or> fst (tool_try t rt p a) =
               Inl (JsError (''Todoist API error ('' @ string_of_nat (status resp) @ ''): '' @ body_text resp))
          \<or> fst (tool_try t rt p a) =
               Inl (JsError (''Todoist Sync API error ('' @ string_of_nat (status resp) @ ''): '' @ body_text resp)))
          catalogue"
  by (simp add: catalogue_def registrations_def refused [OF assms] reply_throws Let_def
        me_body_def return_io_def
        get_tasks_by_filter_try_def create_project_try_def get_projects_try_def get_project_try_def update_project_try_def delete_project_try_def archive_project_try_def unarchive_project_try_def get_project_collaborators_try_def create_section_try_def get_sections_try_def get_section_try_def update_section_try_def delete_section_try_def create_task_try_def get_tasks_try_def get_task_try_def update_task_try_def delete_task_try_def close_task_try_def reopen_task_try_def move_task_try_def quick_add_task_try_def get_completed_tasks_by_completion_date_try_def get_completed_tasks_by_due_date_try_def create_label_try_def get_labels_try_def get_label_try_def update_label_try_def delete_label_try_def get_shared_labels_try_def remove_shared_label_try_def rename_shared_label_try_def create_comment_try_def get_comments_try_def get_comment_try_def update_comment_try_def delete_comment_try_def)


lemma try_catch_throws:
  "fst m = Inl e \<Longrightarrow>
     try_catch m action = (Inr (error_result (''Error '' @ action @ '': '' @ errorMessage e)), snd m)"
  by (cases m) (simp add: try_catch_def)

lemma try_catch_returns: "\<exists>r. fst (try_catch m action) = Inr r"
  by (cases m) (auto simp add: try_catch_def split: sum.splits)

lemma create_task_registered:
  "\<lparr>tool_name = ''create_task'', catch_action = Some ''creating task'', tool_try = create_task_try\<rparr>
     \<in> set (filter (\<lambda>t. tool_name t \<in> ESSENTIAL_TOOLS) catalogue)"
  by (simp add: catalogue_def registrations_def ESSENTIAL_TOOLS_def)

text \<open>
  C3. For every tool that \<^verbatim>\<open>init\<close> registered, under either setting of the switch: the
  handler always returns a result, so no failure leaves it; when its \<^verbatim>\<open>try\<close> block throws,
  the result has the error flag and the text \<^verbatim>\<open>Error <action>: \<close> followed by the message
  of the failure (the fixed text \<^verbatim>\<open>Unknown error occurred\<close> for a thrown value that is
  not an \<^verbatim>\<open>Error\<close>); and when the upstream answers a client operation with a status outside
  the success range, that text holds the status code and the raw body.
\<close>

theorem handlers_report_failures:
  assumes "init minimal essential = Inr server" and "t \<in> set server"
  shows "(\<exists>r. fst (handler t rt this_props a) = Inr r)
   \<and> (\<forall>e. fst (tool_try t rt this_props a) = Inl e \<longrightarrow>
         (\<exists>action. catch_action t = Some action
            \<and> handler t rt this_props a =
                (Inr (error_result (''Error '' @ action @ '': '' @ errorMessage e)),
                 snd (tool_try t rt this_props a))))
   \<and> (fetch rt = (\<lambda>req. Inr resp) \<and> \<not> response_ok resp \<and> snd (handler t rt this_props a) \<noteq> [] \<longrightarrow>
         (\<exists>action. catch_action t = Some action
            \<and> (fst (handler t rt this_props a) =
                  Inr (error_result (''Error '' @ action @ '': '' @ ''Todoist API error (''
                         @ string_of_nat (status resp) @ ''): '' @ body_text resp))
               \<or> fst (handler t rt this_props a) =
                  Inr (error_result (''Error '' @ action @ '': '' @ ''Todoist Sync API error (''
                         @ string_of_nat (status resp) @ ''): '' @ body_text resp)))))"
proof -
  from init_registers_catalogue [OF assms(1)] assms(2) have cat: "t \<in> set catalogue"
    by blast
  show ?thesis
  proof (cases "catch_action t")
    case None
    from uncaught_is_me [OF cat None] have try_me: "tool_try t = me_body" .
    from me_body_returns [of rt this_props a] obtain r where r: "me_body rt this_props a = (Inr r, [])"
      by blast
    with None try_me show ?thesis
      by (simp add: handler_def)
  next
    case (Some action)
    have h: "handler t rt this_props a = try_catch (tool_try t rt this_props a) action"
      using Some by (simp add: handler_def)
    have returns: "\<exists>r. fst (handler t rt this_props a) = Inr r"
      unfolding h by (rule try_catch_returns)
    have caught: "\<forall>e. fst (tool_try t rt this_props a) = Inl e \<longrightarrow>
         (\<exists>action. catch_action t = Some action
            \<and> handler t rt this_props a =
                (Inr (error_result (''Error '' @ action @ '': '' @ errorMessage e)),
                 snd (tool_try t rt this_props a)))"
      using Some by (simp add: h try_catch_throws)
    have refusal: "fetch rt = (\<lambda>req. Inr resp) \<and> \<not> response_ok resp \<and> snd (handler t rt this_props a) \<noteq> [] \<longrightarrow>
         (\<exists>action. catch_action t = Some action
            \<and> (fst (handler t rt this_props a) =
                  Inr (error_result (''Error '' @ action @ '': '' @ ''Todoist API error (''
                         @ string_of_nat (status resp) @ ''): '' @ body_text resp))
               \<or> fst (handler t rt this_props a) =
                  Inr (error_result (''Error '' @ action @ '': '' @ ''Todoist Sync API error (''
                         @ string_of_nat (status resp) @ ''): '' @ body_text resp))))"
    proof
      assume a: "fetch rt = (\<lambda>req. Inr resp) \<and> \<not> response_ok resp \<and> snd (handler t rt this_props a) \<noteq> []"
      then have f: "fetch rt = (\<lambda>req. Inr resp)" and n: "\<not> response_ok resp" by simp_all
      from a have tr: "snd (tool_try t rt this_props a) \<noteq> []"
        by (simp add: h snd_try_catch)
      from refused_all [OF f n] cat tr
      have "fst (tool_try t rt this_props a) =
               Inl (JsError (''Todoist API error ('' @ string_of_nat (status resp) @ ''): '' @ body_text resp))
          \<or> fst (tool_try t rt this_props a) =
               Inl (JsError (''Todoist Sync API error ('' @ string_of_nat (status resp) @ ''): '' @ body_text resp))"
        by (auto simp add: list_all_iff)
      then show "\<exists>action. catch_action t = Some action
            \<and> (fst (handler t rt this_props a) =
                  Inr (error_result (''Error '' @ action @ '': '' @ ''Todoist API error (''
                         @ string_of_nat (status resp) @ ''): '' @ body_text resp))
               \<or> fst (handler t rt this_props a) =
                  Inr (error_result (''Error '' @ action @ '': '' @ ''Todoist Sync API error (''
                         @ string_of_nat (status resp) @ ''): '' @ body_text resp)))"
        using Some by (auto simp add: h try_catch_throws)
    qed
    from returns caught refusal show ?thesis by (intro conjI)
  qed
qed

theorem handlers_report_failures_witness:
  "init True ESSENTIAL_TOOLS = Inr (filter (\<lambda>t. tool_name t \<in> ESSENTIAL_TOOLS) catalogue)
   \<and> \<not> response_ok not_found
   \<and> handler \<lparr>tool_name = ''create_task'', catch_action = Some ''creating task'',
               tool_try = create_task_try\<rparr>
        (example_runtime (Inr not_found)) example_props [(''content'', JStr ''Buy milk'')] =
       (Inr \<lparr>content_text = ''Error creating task: Todoist API error (404): Task not found'',
             isError = True\<rparr>,
        [Post ''/tasks'' [(''content'', JStr ''Buy milk'')]])"
proof -
  have digits: "string_of_nat 404 = ''404''"
    by (simp add: string_of_nat.simps digit_char_def)
  have thrown: "create_task_try (example_runtime (Inr not_found)) example_props
      [(''content'', JStr ''Buy milk'')] =
      (Inl (JsError ''Todoist API error (404): Task not found''),
       [Post ''/tasks'' [(''content'', JStr ''Buy milk'')]])"
    by (simp add: create_task_try_def json_reply_def bind_io_def client_post_def fetch_then_def
          example_runtime_def not_found_def handleResponse_def response_ok_def digits lookup_def
          assign_if_def)
  from handlers_report_failures [OF init_minimal create_task_registered,
      where rt = "example_runtime (Inr not_found)" and this_props = example_props
        and a = "[(''content'', JStr ''Buy milk'')]"] thrown
  show ?thesis
    by (simp add: init_minimal not_found_def response_ok_def error_result_def)
qed

end
